theory Spec2Isabelle
  imports Main "HOL-Library.Word" "HOL-Library.Sublist" "HOL-Library.Code_Target_Numeral"
begin

unbundle bit_operations_syntax

section \<open>Python string operations used by the generators\<close>

definition startswith :: "string \<Rightarrow> string \<Rightarrow> bool" where
  "startswith s p = prefix p s"

definition endswith :: "string \<Rightarrow> string \<Rightarrow> bool" where
  "endswith s p = suffix p s"

text \<open>\<open>sub in s\<close> on strings.\<close>

definition contains :: "string \<Rightarrow> string \<Rightarrow> bool" where
  "contains sub s = sublist sub s"

text \<open>\<open>s.split(sep)\<close> for a separator of one character; the result is never empty.\<close>

fun split_sep :: "char \<Rightarrow> string \<Rightarrow> string list" where
  "split_sep sep [] = [[]]"
| "split_sep sep (c # cs) =
     (if c = sep then [] # split_sep sep cs
      else (case split_sep sep cs of
              p # ps \<Rightarrow> (c # p) # ps
            | [] \<Rightarrow> [[c]]))"

text \<open>
  \<open>s.replace(old, new)\<close>: the occurrences of \<open>old\<close> are found from left to right
  without overlap. For the empty \<open>old\<close> Python puts \<open>new\<close> before every character and
  at the end.
\<close>

function replace_scan :: "string \<Rightarrow> string \<Rightarrow> string \<Rightarrow> string" where
  "replace_scan old new [] = []"
| "replace_scan old new (c # cs) =
     (if prefix old (c # cs) then new @ replace_scan old new (drop (length old - 1) cs)
      else c # replace_scan old new cs)"
  by pat_completeness auto
termination
  by (relation "measure (\<lambda>(old, new, s). length s)") (auto simp: less_Suc_eq_le)

definition str_replace :: "string \<Rightarrow> string \<Rightarrow> string \<Rightarrow> string" where
  "str_replace s old new =
     (if old = [] then new @ concat (map (\<lambda>c. c # new) s) else replace_scan old new s)"

text \<open>\<open>sep.join(parts)\<close>.\<close>

fun join :: "string \<Rightarrow> string list \<Rightarrow> string" where
  "join sep [] = []"
| "join sep [x] = x"
| "join sep (x # y # ys) = x @ sep @ join sep (y # ys)"

text \<open>\<open>os.path.basename\<close> on POSIX paths: the text after the last slash.\<close>

definition basename :: "string \<Rightarrow> string" where
  "basename p = rev (takeWhile (\<lambda>c. c \<noteq> CHR ''/'') (rev p))"

text \<open>\<open>s.removesuffix(suf)\<close>: the string without the suffix, when it ends with it.\<close>

definition removesuffix :: "string \<Rightarrow> string \<Rightarrow> string" where
  "removesuffix s suf = (if endswith s suf then take (length s - length suf) s else s)"

section \<open>Name mangling (generator/util.py)\<close>

text \<open>
  Names handled by the generator are protobuf identifiers. A Python \<open>str\<close> is a
  \<^typ>\<open>string\<close>; the character classes of the two regular expressions of
  \<open>to_snake_case\<close> are ranges of code points, and \<open>str.lower\<close> is modelled on the
  ASCII letters (every other character is left as it is).
\<close>

definition is_upper :: "char \<Rightarrow> bool" where
  "is_upper c = (65 \<le> (of_char c :: nat) \<and> (of_char c :: nat) \<le> 90)"

definition is_lower :: "char \<Rightarrow> bool" where
  "is_lower c = (97 \<le> (of_char c :: nat) \<and> (of_char c :: nat) \<le> 122)"

definition is_digit :: "char \<Rightarrow> bool" where
  "is_digit c = (48 \<le> (of_char c :: nat) \<and> (of_char c :: nat) \<le> 57)"

definition lower_char :: "char \<Rightarrow> char" where
  "lower_char c = (if is_upper c then char_of (of_char c + (32 :: nat)) else c)"

definition lower :: "string \<Rightarrow> string" where
  "lower s = map lower_char s"

text \<open>
  \<open>re.sub("(.)([A-Z][a-z]+)", r"\1_\2", name)\<close>: the scan goes from left to right; at
  each position the pattern needs a character other than a newline, an upper-case letter
  and at least one lower-case letter, and \<open>[a-z]+\<close> is greedy. A match is replaced and
  the scan goes on after it; otherwise the character is copied.
\<close>

function re_sub_word :: "string \<Rightarrow> string" where
  "re_sub_word [] = []"
| "re_sub_word (c # rest) =
     (case rest of
        u # l # rest' \<Rightarrow>
          if c \<noteq> CHR 0x0A \<and> is_upper u \<and> is_lower l
          then c # CHR ''_'' # u # l # takeWhile is_lower rest' @ re_sub_word (dropWhile is_lower rest')
          else c # re_sub_word rest
      | _ \<Rightarrow> c # re_sub_word rest)"
  by pat_completeness auto
termination
  by (relation "measure length") (auto simp: less_Suc_eq_le le_SucI length_dropWhile_le)

text \<open>\<open>re.sub("([a-z0-9])([A-Z])", r"\1_\2", s1)\<close>, scanned the same way.\<close>

fun re_sub_hump :: "string \<Rightarrow> string" where
  "re_sub_hump (c # u # rest) =
     (if (is_lower c \<or> is_digit c) \<and> is_upper u
      then c # CHR ''_'' # u # re_sub_hump rest
      else c # re_sub_hump (u # rest))"
| "re_sub_hump s = s"

definition to_snake_case :: "string \<Rightarrow> string" where
  "to_snake_case name = (let s1 = re_sub_word name in lower (re_sub_hump s1))"


section \<open>The RPC transport client (tools/rpc/zenoh\_rpc\_client.py)\<close>

type_synonym byte = "8 word"

datatype RpcResult = RpcResult (result_success: bool) (result_data: "byte list") (result_error: "string option")

datatype RpcResponse = RpcResponse (response_success: bool) (response_error: "string option")

text \<open>
  A reply of the transport is either \<open>reply.ok\<close> with its payload or an error reply;
  \<open>ReplyErr\<close> carries the text of \<open>reply.err\<close>. \<open>session.get\<close> either raises or
  returns an iterator over the replies that arrive before the timeout; taking the next
  element of the iterator may raise as well. The session is a function of the key
  expression, the payload and the timeout (the code passes \<open>timeout_ms / 1000.0\<close>
  seconds; the model passes the milliseconds on).
\<close>

datatype reply = ReplyOk "byte list" | ReplyErr string

datatype reply_event = Reply reply | IterRaises string

datatype get_result = GetRaises string | GetReturns "reply_event list"

record ZenohRpcClient =
  session :: "string \<Rightarrow> byte list \<Rightarrow> int \<Rightarrow> get_result"
  device_id :: string

definition set_device_id :: "ZenohRpcClient \<Rightarrow> string \<Rightarrow> ZenohRpcClient" where
  "set_device_id self new_id = self\<lparr>device_id := new_id\<rparr>"

text \<open>The key expression built at the start of \<open>ZenohRpcClient.call\<close>.\<close>

definition call_key_expr :: "string \<Rightarrow> string \<Rightarrow> string \<Rightarrow> string" where
  "call_key_expr dev service_name method_name =
     (if dev \<noteq> []
      then dev @ ''/rpc/'' @ service_name @ ''/'' @ method_name
      else ''rpc/'' @ service_name @ ''/'' @ method_name)"

text \<open>
  The \<open>for reply in replies\<close> loop: both branches of its body return, so it takes at
  most one element from the iterator. The function returns what the loop yields (an
  exception of the iterator as \<open>Inl\<close>) together with the elements left in the iterator.
\<close>

fun call_loop :: "reply_event list \<Rightarrow> (string + RpcResult) \<times> reply_event list" where
  "call_loop [] = (Inr (RpcResult False [] (Some ''No reply received'')), [])"
| "call_loop (Reply (ReplyOk payload) # rest) = (Inr (RpcResult True payload None), rest)"
| "call_loop (Reply (ReplyErr e) # rest) =
     (Inr (RpcResult False [] (Some (''Reply error: '' @ e))), rest)"
| "call_loop (IterRaises e # rest) = (Inl e, rest)"

definition call :: "ZenohRpcClient \<Rightarrow> string \<Rightarrow> string \<Rightarrow> byte list \<Rightarrow> int \<Rightarrow> RpcResult" where
  "call self service_name method_name request_data timeout_ms =
     (let key_expr = call_key_expr (device_id self) service_name method_name
      in case session self key_expr request_data timeout_ms of
           GetRaises e \<Rightarrow> RpcResult False [] (Some e)
         | GetReturns replies \<Rightarrow>
             (case fst (call_loop replies) of
                Inl e \<Rightarrow> RpcResult False [] (Some e)
              | Inr r \<Rightarrow> r))"

section \<open>The raw option extractor (generator/util.py)\<close>

datatype py_error = IndexError | DecodeError | UnicodeDecodeError

text \<open>
  The varint decoders belong to the protobuf runtime
  (\<open>google.protobuf.internal.decoder\<close>), not to the repository. They are instances of
  the runtime's \<open>_VarintDecoder(mask)\<close>: read bytes from \<open>buffer[pos]\<close> on, seven bits
  each, least significant group first, until a byte without the continuation bit; the
  value is masked and returned with the position after it. Reading past the end of the
  buffer raises \<open>IndexError\<close>; a tenth continuation byte raises the runtime's decode
  error. \<open>_DecodeVarint32\<close> has the mask \<open>2^32 - 1\<close>; \<open>_DecodeVarint64\<close> is taken to
  be the decoder with the mask \<open>2^64 - 1\<close>.
\<close>

function VarintDecoder_loop ::
  "nat \<Rightarrow> byte list \<Rightarrow> nat \<Rightarrow> nat \<Rightarrow> nat \<Rightarrow> py_error + (nat \<times> nat)" where
  "VarintDecoder_loop mask_bits buffer pos result shift =
     (if length buffer \<le> pos then Inl IndexError
      else let b = unat (buffer ! pos);
               result' = result OR push_bit shift (b AND 0x7f);
               pos' = pos + 1
           in if b AND 0x80 = 0 then Inr (result' AND mask_bits, pos')
              else let shift' = shift + 7
                   in if shift' \<ge> 64 then Inl DecodeError
                      else VarintDecoder_loop mask_bits buffer pos' result' shift')"
  by pat_completeness auto
termination
  by (relation "measure (\<lambda>(m, buffer, pos, result, shift). 64 - shift)") auto

declare VarintDecoder_loop.simps [simp del]

definition VarintDecoder :: "nat \<Rightarrow> byte list \<Rightarrow> nat \<Rightarrow> py_error + (nat \<times> nat)" where
  "VarintDecoder mask_bits buffer pos = VarintDecoder_loop mask_bits buffer pos 0 0"

definition DecodeVarint32 :: "byte list \<Rightarrow> nat \<Rightarrow> py_error + (nat \<times> nat)" where
  "DecodeVarint32 = VarintDecoder (2 ^ 32 - 1)"

definition DecodeVarint64 :: "byte list \<Rightarrow> nat \<Rightarrow> py_error + (nat \<times> nat)" where
  "DecodeVarint64 = VarintDecoder (2 ^ 64 - 1)"

lemma VarintDecoder_loop_advances:
  "VarintDecoder_loop m buffer pos result shift = Inr (v, pos') \<Longrightarrow> pos < pos'"
proof (induction m buffer pos result shift rule: VarintDecoder_loop.induct)
  case (1 m buffer pos result shift)
  note unfold = VarintDecoder_loop.simps [of m buffer pos result shift]
  show ?case
  proof (cases "length buffer \<le> pos \<or> unat (buffer ! pos) AND 0x80 = 0 \<or> 64 \<le> shift + 7")
    case True
    with "1.prems" show ?thesis
      by (auto simp: unfold Let_def split: if_splits)
  next
    case False
    with "1.prems" have
      "VarintDecoder_loop m buffer (pos + 1)
         (result OR push_bit shift (unat (buffer ! pos) AND 0x7f)) (shift + 7) = Inr (v, pos')"
      by (simp add: unfold Let_def)
    with False have "pos + 1 < pos'"
      using "1.IH" [OF _ refl refl refl _ refl] by simp
    then show ?thesis by simp
  qed
qed

lemma DecodeVarint32_advances: "DecodeVarint32 buffer pos = Inr (v, pos') \<Longrightarrow> pos < pos'"
  by (auto simp: DecodeVarint32_def VarintDecoder_def dest: VarintDecoder_loop_advances)

lemma DecodeVarint64_advances: "DecodeVarint64 buffer pos = Inr (v, pos') \<Longrightarrow> pos < pos'"
  by (auto simp: DecodeVarint64_def VarintDecoder_def dest: VarintDecoder_loop_advances)

text \<open>
  \<open>bytes.decode("utf-8")\<close> accepts exactly the well-formed UTF-8 byte sequences (no
  overlong forms, no surrogates, nothing above U+10FFFF) and raises
  \<open>UnicodeDecodeError\<close> otherwise. A Python \<open>str\<close> is represented by its UTF-8 bytes,
  so the decoded text has the bytes of the input as its characters.
\<close>

definition utf8_cont :: "nat \<Rightarrow> bool" where
  "utf8_cont b = (0x80 \<le> b \<and> b \<le> 0xBF)"

fun utf8_well_formed :: "nat list \<Rightarrow> bool" where
  "utf8_well_formed [] = True"
| "utf8_well_formed (b0 # bs) =
     (if b0 < 0x80 then utf8_well_formed bs
      else if 0xC2 \<le> b0 \<and> b0 \<le> 0xDF then
        (case bs of b1 # r \<Rightarrow> utf8_cont b1 \<and> utf8_well_formed r | _ \<Rightarrow> False)
      else if 0xE0 \<le> b0 \<and> b0 \<le> 0xEF then
        (case bs of
           b1 # b2 # r \<Rightarrow>
             (if b0 = 0xE0 then 0xA0 \<le> b1 \<and> b1 \<le> 0xBF
              else if b0 = 0xED then 0x80 \<le> b1 \<and> b1 \<le> 0x9F
              else utf8_cont b1)
             \<and> utf8_cont b2 \<and> utf8_well_formed r
         | _ \<Rightarrow> False)
      else if 0xF0 \<le> b0 \<and> b0 \<le> 0xF4 then
        (case bs of
           b1 # b2 # b3 # r \<Rightarrow>
             (if b0 = 0xF0 then 0x90 \<le> b1 \<and> b1 \<le> 0xBF
              else if b0 = 0xF4 then 0x80 \<le> b1 \<and> b1 \<le> 0x8F
              else utf8_cont b1)
             \<and> utf8_cont b2 \<and> utf8_cont b3 \<and> utf8_well_formed r
         | _ \<Rightarrow> False)
      else False)"

definition decode_utf8 :: "byte list \<Rightarrow> py_error + string" where
  "decode_utf8 value_bytes =
     (if utf8_well_formed (map unat value_bytes)
      then Inr (map (\<lambda>b. char_of (unat b)) value_bytes)
      else Inl UnicodeDecodeError)"

text \<open>
  The \<open>while position < size\<close> loop of \<open>get_option_value\<close>. The slice
  \<open>data[position : position + length]\<close> is cut at the end of the buffer; the result
  \<open>None\<close> of the source is \<open>Inr None\<close>, an exception is \<open>Inl\<close>.
\<close>

function get_option_value_loop :: "byte list \<Rightarrow> int \<Rightarrow> nat \<Rightarrow> py_error + string option" where
  "get_option_value_loop data field_number position =
     (if position < length data then
        (case DecodeVarint32 data position of
           Inl e \<Rightarrow> Inl e
         | Inr (tag, position1) \<Rightarrow>
             let current_field_number = drop_bit 3 tag;
                 wire_type = tag AND 0x07
             in if int current_field_number = field_number then
                  (if wire_type = 2 then
                     (case DecodeVarint32 data position1 of
                        Inl e \<Rightarrow> Inl e
                      | Inr (len, position2) \<Rightarrow>
                          (case decode_utf8 (take len (drop position2 data)) of
                             Inl e \<Rightarrow> Inl e
                           | Inr s \<Rightarrow> Inr (Some s)))
                   else Inr None)
                else if wire_type = 0 then
                  (case DecodeVarint64 data position1 of
                     Inl e \<Rightarrow> Inl e
                   | Inr (temp, position2) \<Rightarrow> get_option_value_loop data field_number position2)
                else if wire_type = 1 then
                  get_option_value_loop data field_number (position1 + 8)
                else if wire_type = 2 then
                  (case DecodeVarint32 data position1 of
                     Inl e \<Rightarrow> Inl e
                   | Inr (len, position2) \<Rightarrow>
                       get_option_value_loop data field_number (position2 + len))
                else if wire_type = 5 then
                  get_option_value_loop data field_number (position1 + 4)
                else get_option_value_loop data field_number position1)
      else Inr None)"
  by pat_completeness auto
termination
proof (relation "measure (\<lambda>(data, field_number, position). length data - position)", goal_cases)
  case 1
  show ?case by simp
next
  case (2 data field_number position b x y xa xb ba xc ya)
  then have "position < y" and "y < ya"
    using DecodeVarint32_advances [of data position x y] DecodeVarint64_advances [of data y xc ya]
    by simp_all
  with 2(1) show ?case by simp
next
  case (3 data field_number position b x y xa xb)
  then have "position < y"
    using DecodeVarint32_advances [of data position x y] by simp
  with 3(1) show ?case by simp
next
  case (4 data field_number position b x y xa xb ba xc ya)
  then have "position < y" and "y < ya"
    using DecodeVarint32_advances [of data position x y] DecodeVarint32_advances [of data y xc ya]
    by simp_all
  with 4(1) show ?case by simp
next
  case (5 data field_number position b x y xa xb)
  then have "position < y"
    using DecodeVarint32_advances [of data position x y] by simp
  with 5(1) show ?case by simp
next
  case (6 data field_number position b x y xa xb)
  then have "position < y"
    using DecodeVarint32_advances [of data position x y] by simp
  with 6(1) show ?case by simp
qed

declare get_option_value_loop.simps [simp del]

text \<open>
  \<open>options_obj.SerializeToString()\<close> is the canonical serialization of the options
  object; the options of a message are represented by these bytes.
\<close>

definition get_option_value :: "byte list \<Rightarrow> int \<Rightarrow> py_error + string option" where
  "get_option_value options_obj field_number = get_option_value_loop options_obj field_number 0"

section \<open>The wire format scanned by the extractor\<close>

text \<open>
  The serialized options are tag/length-prefixed wire data: a sequence of fields, each a
  varint tag \<open>field_number * 8 + wire_type\<close> followed by the value. A varint holds
  seven bits per byte, least significant group first, with the top bit set on every byte
  but the last. Wire type 0 is a varint, 1 is eight bytes, 2 is a varint length followed
  by that many bytes, 5 is four bytes. These definitions follow the format, not the
  scanner; they state what a serialized options buffer is.
\<close>

fun encode_varint :: "nat \<Rightarrow> byte list" where
  "encode_varint n =
     (if n < 128 then [word_of_nat n]
      else word_of_nat (n mod 128 + 128) # encode_varint (n div 128))"

declare encode_varint.simps [simp del]

datatype wire_value =
    Varint nat
  | Fixed64 "byte list"
  | LengthDelimited "byte list"
  | Fixed32 "byte list"

type_synonym wire_field = "nat \<times> wire_value"

fun wire_type_of :: "wire_value \<Rightarrow> nat" where
  "wire_type_of (Varint n) = 0"
| "wire_type_of (Fixed64 bs) = 1"
| "wire_type_of (LengthDelimited bs) = 2"
| "wire_type_of (Fixed32 bs) = 5"

fun encode_value :: "wire_value \<Rightarrow> byte list" where
  "encode_value (Varint n) = encode_varint n"
| "encode_value (Fixed64 bs) = bs"
| "encode_value (LengthDelimited bs) = encode_varint (length bs) @ bs"
| "encode_value (Fixed32 bs) = bs"

definition encode_field :: "wire_field \<Rightarrow> byte list" where
  "encode_field f = encode_varint (fst f * 8 + wire_type_of (snd f)) @ encode_value (snd f)"

definition serialize_fields :: "wire_field list \<Rightarrow> byte list" where
  "serialize_fields fs = concat (map encode_field fs)"




section \<open>The descriptor model read by the generators\<close>

text \<open>
  The generators read a \<open>CodeGeneratorRequest\<close> of the protobuf compiler. Only the
  parts they read are modelled. The options of a message are held as their serialized
  bytes. An extension is a field descriptor with a name and a number.
\<close>

datatype field_type =
    TYPE_DOUBLE | TYPE_FLOAT | TYPE_INT64 | TYPE_UINT64 | TYPE_INT32 | TYPE_FIXED64
  | TYPE_FIXED32 | TYPE_BOOL | TYPE_STRING | TYPE_GROUP | TYPE_MESSAGE | TYPE_BYTES
  | TYPE_UINT32 | TYPE_ENUM | TYPE_SFIXED32 | TYPE_SFIXED64 | TYPE_SINT32 | TYPE_SINT64

record FieldDescriptorProto =
  fld_name :: string
  fld_number :: int
  fld_type :: field_type

record DescriptorProto =
  msg_name :: string
  msg_field :: "FieldDescriptorProto list"
  msg_options :: "byte list"

record MethodDescriptorProto =
  mth_name :: string
  mth_input_type :: string
  mth_output_type :: string

record ServiceDescriptorProto =
  svc_name :: string
  svc_method :: "MethodDescriptorProto list"

record FileDescriptorProto =
  pf_name :: string
  pf_package :: string
  pf_message_type :: "DescriptorProto list"
  pf_service :: "ServiceDescriptorProto list"
  pf_extension :: "FieldDescriptorProto list"

record CodeGeneratorRequest =
  req_file_to_generate :: "string list"
  req_parameter :: string
  req_proto_file :: "FileDescriptorProto list"

subsection \<open>\<open>find_zenoh_key\<close> (generator/util.py)\<close>

text \<open>
  The two nested loops of \<open>find_zenoh_key\<close>, which return at the first extension whose
  name ends with \<open>zenoh_key\<close>; \<open>None\<close> stands for a loop that ran to its end.
\<close>

fun find_zenoh_key_in_extensions :: "FieldDescriptorProto list \<Rightarrow> int option" where
  "find_zenoh_key_in_extensions [] = None"
| "find_zenoh_key_in_extensions (ext # exts) =
     (if endswith (fld_name ext) ''zenoh_key'' then Some (fld_number ext)
      else find_zenoh_key_in_extensions exts)"

fun find_zenoh_key_in_files :: "FileDescriptorProto list \<Rightarrow> int option" where
  "find_zenoh_key_in_files [] = None"
| "find_zenoh_key_in_files (proto_file # proto_files) =
     (case find_zenoh_key_in_extensions (pf_extension proto_file) of
        Some n \<Rightarrow> Some n
      | None \<Rightarrow> find_zenoh_key_in_files proto_files)"

definition find_zenoh_key :: "CodeGeneratorRequest \<Rightarrow> int" where
  "find_zenoh_key request =
     (case find_zenoh_key_in_files (req_proto_file request) of
        Some n \<Rightarrow> n
      | None \<Rightarrow> 50001)"

section \<open>The client emitter (generator/gen\_client\_python.py)\<close>

fun TYPE_MAPPING :: "field_type \<Rightarrow> string option" where
  "TYPE_MAPPING TYPE_DOUBLE = Some ''float''"
| "TYPE_MAPPING TYPE_FLOAT = Some ''float''"
| "TYPE_MAPPING TYPE_INT32 = Some ''int''"
| "TYPE_MAPPING TYPE_INT64 = Some ''int''"
| "TYPE_MAPPING TYPE_UINT32 = Some ''int''"
| "TYPE_MAPPING TYPE_UINT64 = Some ''int''"
| "TYPE_MAPPING TYPE_BOOL = Some ''bool''"
| "TYPE_MAPPING TYPE_STRING = Some ''str''"
| "TYPE_MAPPING TYPE_BYTES = Some ''bytes''"
| "TYPE_MAPPING _ = None"

text \<open>\<open>get_message_map\<close>: a later message of the same full name replaces an earlier one.\<close>

definition full_name :: "string \<Rightarrow> DescriptorProto \<Rightarrow> string" where
  "full_name package msg =
     (if package \<noteq> [] then ''.'' @ package @ ''.'' @ msg_name msg else ''.'' @ msg_name msg)"

definition get_message_map :: "FileDescriptorProto \<Rightarrow> (string \<rightharpoonup> DescriptorProto)" where
  "get_message_map proto_file =
     foldl (\<lambda>msg_map msg. msg_map(full_name (pf_package proto_file) msg \<mapsto> msg))
       Map.empty (pf_message_type proto_file)"

text \<open>
  The lines appended for one method of a service (the body of the loop over
  \<open>service.method\<close>). The argument list and the field assignments are extended only
  when the input type resolves to a message with at least one field.
\<close>

definition field_arg :: "FieldDescriptorProto \<Rightarrow> string" where
  "field_arg field =
     '', '' @ fld_name field @ '': Optional[''
       @ (case TYPE_MAPPING (fld_type field) of Some py_type \<Rightarrow> py_type | None \<Rightarrow> ''Any'')
       @ ''] = None''"

definition field_assign :: "FieldDescriptorProto \<Rightarrow> string" where
  "field_assign field = fld_name field @ ''='' @ fld_name field"

definition client_method_lines ::
  "(string \<rightharpoonup> DescriptorProto) \<Rightarrow> MethodDescriptorProto \<Rightarrow> string list" where
  \<open>client_method_lines msg_map method =
     (let method_snake = to_snake_case (mth_name method);
          req_cls_name = last (split_sep CHR ''.'' (mth_input_type method));
          arg_list_str0 = ''self, request: Optional[pb.'' @ req_cls_name @ ''] = None'';
          input_msg = msg_map (mth_input_type method);
          has_fields = (case input_msg of Some m \<Rightarrow> length (msg_field m) > 0 | None \<Rightarrow> False);
          arg_list_str =
            (if has_fields
             then arg_list_str0 @ '', *'' @ concat (map field_arg (msg_field (the input_msg)))
             else arg_list_str0);
          field_assigns =
            (if has_fields then map field_assign (msg_field (the input_msg)) else []);
          is_empty = endswith (mth_output_type method) ''Empty'';
          resp_cls = last (split_sep CHR ''.'' (mth_output_type method));
          ret_type =
            (if is_empty then ''RpcResponse''
             else ''tuple[RpcResponse, Optional[pb.'' @ resp_cls @ '']]'')
      in [''    def '' @ method_snake @ ''('' @ arg_list_str @ '') -> '' @ ret_type @ '':'',
          ''        """'' @ mth_name method @ '' RPC call."""'',
          ''        if request is None:'',
          (if field_assigns \<noteq> []
           then ''            request = pb.'' @ req_cls_name @ ''('' @ join '', '' field_assigns @ '')''
           else ''            request = pb.'' @ req_cls_name @ ''()''),
          '''',
          ''        result = self.rpc_client.call(self.SERVICE_NAME, "'' @ mth_name method
            @ ''", request.SerializeToString())'',
          ''        if result.success:'']
         @ (if is_empty
            then [''            return RpcResponse(success=True)'',
                  ''        return RpcResponse(success=False, error=result.error)'']
            else [''            response = pb.'' @ resp_cls @ ''()'',
                  ''            response.ParseFromString(result.data)'',
                  ''            return RpcResponse(success=True), response'',
                  ''        return RpcResponse(success=False, error=result.error), None''])
         @ [''''])\<close>

definition client_service_lines ::
  "(string \<rightharpoonup> DescriptorProto) \<Rightarrow> ServiceDescriptorProto \<Rightarrow> string list" where
  \<open>client_service_lines msg_map service =
     [''class '' @ svc_name service @ ''Client:'',
      ''    SERVICE_NAME = "'' @ svc_name service @ ''"'',
      '''',
      ''    def __init__(self, rpc_client: ZenohRpcClient):'',
      ''        self.rpc_client = rpc_client'',
      '''']
     @ concat (map (client_method_lines msg_map) (svc_method service))\<close>

text \<open>
  The key of a telemetry message: the custom option at the field number the request
  resolves to, or the default built from the name when the option has no value
  (\<open>None\<close> or the empty string). An exception of the extractor is not caught here.
\<close>

definition telemetry_snake_name :: "DescriptorProto \<Rightarrow> string" where
  "telemetry_snake_name msg =
     (let base_name = str_replace (msg_name msg) ''Telemetry'' '''' in to_snake_case base_name)"

definition telemetry_zenoh_key :: "CodeGeneratorRequest \<Rightarrow> DescriptorProto \<Rightarrow> py_error + string" where
  "telemetry_zenoh_key request msg =
     (case get_option_value (msg_options msg) (find_zenoh_key request) of
        Inl e \<Rightarrow> Inl e
      | Inr zenoh_key \<Rightarrow>
          (if zenoh_key = None \<or> zenoh_key = Some []
           then Inr (''/telemetry/'' @ telemetry_snake_name msg)
           else Inr (the zenoh_key)))"

definition telemetry_subscribe_lines ::
  "CodeGeneratorRequest \<Rightarrow> DescriptorProto \<Rightarrow> py_error + string list" where
  \<open>telemetry_subscribe_lines request msg =
     (let snake_name = telemetry_snake_name msg
      in case telemetry_zenoh_key request msg of
           Inl e \<Rightarrow> Inl e
         | Inr zenoh_key \<Rightarrow>
             (let type_hint = ''Callable[[pb.'' @ msg_name msg @ ''], None]''
              in Inr
                [''    def subscribe_'' @ snake_name @ ''(self, callback: '' @ type_hint @ ''):'',
                 ''        """Subscribe to '' @ snake_name @ '' telemetry."""'',
                 ''        key_expr = f"{self.device_id}'' @ zenoh_key @ ''"'',
                 ''        self.logger.info(f"Subscribing to: {key_expr}")'',
                 '''',
                 ''        def handler(data: bytes):'',
                 ''            try:'',
                 ''                payload = pb.'' @ msg_name msg @ ''()'',
                 ''                payload.ParseFromString(data)'',
                 ''                callback(payload)'',
                 ''            except Exception as e:'',
                 ''                self.logger.error(f"Failed to parse '' @ msg_name msg @ '': {e}")'',
                 '''',
                 ''        sub_id = self.sub_client.subscribe(key_expr, handler)'',
                 ''        self._sub_ids.append(sub_id)'',
                 '''']))\<close>

text \<open>The loop over the telemetry messages; the first exception ends it.\<close>

fun telemetry_methods ::
  "CodeGeneratorRequest \<Rightarrow> DescriptorProto list \<Rightarrow> py_error + string list" where
  "telemetry_methods request [] = Inr []"
| "telemetry_methods request (msg # msgs) =
     (case telemetry_subscribe_lines request msg of
        Inl e \<Rightarrow> Inl e
      | Inr ls \<Rightarrow>
          (case telemetry_methods request msgs of
             Inl e \<Rightarrow> Inl e
           | Inr rest \<Rightarrow> Inr (ls @ rest)))"

definition telemetry_class_head :: "string list" where
  \<open>telemetry_class_head =
     [''class TelemetrySubscriber:'',
      ''    """Subscriber for telemetry data from device."""'',
      '''',
      ''    def __init__(self, sub_client: ZenohSubscriberClient, device_id: str, logger: Optional[logging.Logger] = None):'',
      ''        self.sub_client = sub_client'',
      ''        self.device_id = device_id'',
      ''        self._sub_ids: List[str] = []'',
      ''        self.logger = logger or logging.getLogger(__name__)'',
      '''']\<close>

definition telemetry_class_tail :: "string list" where
  \<open>telemetry_class_tail =
     [''    def unsubscribe_all(self):'',
      ''        """Unsubscribe from all topics."""'',
      ''        for sid in self._sub_ids:'',
      ''            self.sub_client.unsubscribe(sid)'',
      ''        self._sub_ids.clear()'',
      ''        self.logger.info("Unsubscribed from all telemetry topics")'',
      '''']\<close>

definition telemetry_lines ::
  "CodeGeneratorRequest \<Rightarrow> FileDescriptorProto \<Rightarrow> py_error + string list" where
  \<open>telemetry_lines request proto_file =
     (let telemetry_msgs =
            filter (\<lambda>m. endswith (msg_name m) ''Telemetry'') (pf_message_type proto_file)
      in if telemetry_msgs \<noteq> [] then
           (case telemetry_methods request telemetry_msgs of
              Inl e \<Rightarrow> Inl e
            | Inr methods \<Rightarrow> Inr (telemetry_class_head @ methods @ telemetry_class_tail))
         else Inr [])\<close>

text \<open>The content lines of the unit generated for one schema file.\<close>

definition client_header_lines :: "FileDescriptorProto \<Rightarrow> string list" where
  \<open>client_header_lines proto_file =
     (let pb_import_path =
            str_replace (str_replace (pf_name proto_file) ''.proto'' ''_pb2'') ''/'' ''.''
      in [''import logging'',
          ''from dataclasses import dataclass'',
          ''from typing import Callable, Optional, Tuple, Union, List'',
          ''from .zenoh_rpc_client import ZenohRpcClient, ZenohSubscriberClient, RpcResult, RpcResponse'',
          ''from . import '' @ last (split_sep CHR ''.'' pb_import_path) @ '' as pb'',
          '''',
          ''''])\<close>

definition client_file_lines ::
  "CodeGeneratorRequest \<Rightarrow> FileDescriptorProto \<Rightarrow> py_error + string list" where
  \<open>client_file_lines request proto_file =
     (let msg_map = get_message_map proto_file;
          content =
            client_header_lines proto_file
            @ concat (map (client_service_lines msg_map) (pf_service proto_file))
      in case telemetry_lines request proto_file of
           Inl e \<Rightarrow> Inl e
         | Inr telemetry \<Rightarrow> Inr (content @ telemetry))\<close>

text \<open>
  \<open>generate_code\<close>: one unit (file name and content) for every schema file that is to
  be generated and is not one of protobuf's own; an exception ends the run.
\<close>

fun client_generate_files ::
  "CodeGeneratorRequest \<Rightarrow> FileDescriptorProto list \<Rightarrow> py_error + (string \<times> string) list" where
  "client_generate_files request [] = Inr []"
| "client_generate_files request (proto_file # proto_files) =
     (if pf_name proto_file \<notin> set (req_file_to_generate request)
         \<or> contains ''google/protobuf'' (pf_name proto_file)
      then client_generate_files request proto_files
      else
        (case client_file_lines request proto_file of
           Inl e \<Rightarrow> Inl e
         | Inr content \<Rightarrow>
             (case client_generate_files request proto_files of
                Inl e \<Rightarrow> Inl e
              | Inr units \<Rightarrow>
                  Inr ((str_replace (basename (pf_name proto_file)) ''.proto'' ''_client.py'',
                        join [CHR 0x0A] content) # units))))"

definition client_generate_code ::
  "CodeGeneratorRequest \<Rightarrow> py_error + (string \<times> string) list" where
  "client_generate_code request = client_generate_files request (req_proto_file request)"

subsection \<open>The emitted client (tools/rpc/service\_client.py)\<close>

text \<open>
  The unit generated for the example schema is part of the repository. Its methods have
  the two shapes the emitter produces. \<open>start_sensor_stream\<close> is a method whose output
  type ends with \<open>Empty\<close>; \<open>set_led\<close> is one whose output type does not. The request is
  given by its serialization; \<open>ParseFromString\<close> belongs to the protobuf runtime and is
  a parameter, \<open>Inl\<close> when it raises. The call uses the default timeout of 5000 ms.
\<close>

definition start_sensor_stream :: "ZenohRpcClient \<Rightarrow> byte list \<Rightarrow> RpcResponse" where
  "start_sensor_stream rpc_client request =
     (let result = call rpc_client ''DeviceService'' ''StartSensorStream'' request 5000
      in if result_success result then RpcResponse True None
         else RpcResponse False (result_error result))"

definition set_led ::
  "ZenohRpcClient \<Rightarrow> (byte list \<Rightarrow> py_error + 'resp) \<Rightarrow> byte list
     \<Rightarrow> py_error + (RpcResponse \<times> 'resp option)" where
  "set_led rpc_client ParseFromString request =
     (let result = call rpc_client ''DeviceService'' ''SetLed'' request 5000
      in if result_success result then
           (case ParseFromString (result_data result) of
              Inl e \<Rightarrow> Inl e
            | Inr response \<Rightarrow> Inr (RpcResponse True None, Some response))
         else Inr (RpcResponse False (result_error result), None))"

text \<open>
  The key expression the emitted \<open>subscribe_...\<close> method evaluates:
  \<open>f"{self.device_id}<zenoh_key>"\<close> with the key the emitter put into the text.
\<close>

definition subscribe_key_expr :: "string \<Rightarrow> string \<Rightarrow> string" where
  "subscribe_key_expr dev zenoh_key = dev @ zenoh_key"

section \<open>Example schemas\<close>

text \<open>
  An example schema in the package \<open>practice.rpc\<close>, after the generated unit that is
  part of the repository (tools/rpc/service\_client.py): the methods \<open>SetLed\<close> and
  \<open>StartSensorStream\<close> of \<open>DeviceService\<close> and the telemetry message
  \<open>SensorTelemetry\<close> without a custom option. The method \<open>Reset\<close> is added here; its
  input type belongs to another package and does not resolve in this file.
\<close>

definition example_messages :: "DescriptorProto list" where
  "example_messages =
     [\<lparr>msg_name = ''LedRequest'',
        msg_field = [\<lparr>fld_name = ''on'', fld_number = 1, fld_type = TYPE_BOOL\<rparr>],
        msg_options = []\<rparr>,
      \<lparr>msg_name = ''LedResponse'', msg_field = [], msg_options = []\<rparr>,
      \<lparr>msg_name = ''SensorRequest'', msg_field = [], msg_options = []\<rparr>,
      \<lparr>msg_name = ''Empty'', msg_field = [], msg_options = []\<rparr>,
      \<lparr>msg_name = ''SensorTelemetry'', msg_field = [], msg_options = []\<rparr>]"

definition example_service :: ServiceDescriptorProto where
  "example_service =
     \<lparr>svc_name = ''DeviceService'',
      svc_method =
        [\<lparr>mth_name = ''SetLed'', mth_input_type = ''.practice.rpc.LedRequest'',
           mth_output_type = ''.practice.rpc.LedResponse''\<rparr>,
         \<lparr>mth_name = ''StartSensorStream'', mth_input_type = ''.practice.rpc.SensorRequest'',
           mth_output_type = ''.practice.rpc.Empty''\<rparr>,
         \<lparr>mth_name = ''Reset'', mth_input_type = ''.other.ResetRequest'',
           mth_output_type = ''.practice.rpc.Empty''\<rparr>]\<rparr>"

definition example_proto_file :: FileDescriptorProto where
  "example_proto_file =
     \<lparr>pf_name = ''service.proto'', pf_package = ''practice.rpc'',
      pf_message_type = example_messages, pf_service = [example_service],
      pf_extension = []\<rparr>"

definition example_request :: CodeGeneratorRequest where
  "example_request =
     \<lparr>req_file_to_generate = [''service.proto''], req_parameter = [],
      req_proto_file = [example_proto_file]\<rparr>"

text \<open>
  A schema that declares the extension \<open>zenoh_key\<close> with the number 50123 and sets it
  on a telemetry message.
\<close>

definition keyed_proto_file :: FileDescriptorProto where
  "keyed_proto_file =
     \<lparr>pf_name = ''status.proto'', pf_package = ''practice.rpc'',
      pf_message_type =
        [\<lparr>msg_name = ''StatusTelemetry'', msg_field = [],
           msg_options =
             serialize_fields
               [(50123, LengthDelimited (map (\<lambda>c. of_nat (of_char c)) ''/custom/status''))]\<rparr>],
      pf_service = [],
      pf_extension = [\<lparr>fld_name = ''zenoh_key'', fld_number = 50123, fld_type = TYPE_STRING\<rparr>]\<rparr>"

definition keyed_request :: CodeGeneratorRequest where
  "keyed_request =
     \<lparr>req_file_to_generate = [''status.proto''], req_parameter = [],
      req_proto_file = [keyed_proto_file]\<rparr>"

text \<open>A schema whose telemetry message has \<open>Telemetry\<close> twice in its name.\<close>

definition telemetry_log_message :: DescriptorProto where
  "telemetry_log_message =
     \<lparr>msg_name = ''TelemetryLogTelemetry'', msg_field = [], msg_options = []\<rparr>"

definition telemetry_log_proto_file :: FileDescriptorProto where
  "telemetry_log_proto_file =
     \<lparr>pf_name = ''log.proto'', pf_package = ''practice.rpc'',
      pf_message_type = [telemetry_log_message], pf_service = [], pf_extension = []\<rparr>"

definition telemetry_log_request :: CodeGeneratorRequest where
  "telemetry_log_request =
     \<lparr>req_file_to_generate = [''log.proto''], req_parameter = [],
      req_proto_file = [telemetry_log_proto_file]\<rparr>"

section \<open>The pointer-field analyzer (generator/gen\_server\_nanopb.py)\<close>

subsection \<open>Whitespace and paths\<close>





text \<open>The functions of \<open>os.path\<close> on POSIX paths.\<close>

definition isabs :: "string \<Rightarrow> bool" where
  "isabs p = startswith p ''/''"

definition dirname :: "string \<Rightarrow> string" where
  "dirname p =
     (let head = rev (dropWhile (\<lambda>c. c \<noteq> CHR ''/'') (rev p))
      in if head \<noteq> [] \<and> head \<noteq> replicate (length head) CHR ''/''
         then rev (dropWhile (\<lambda>c. c = CHR ''/'') (rev head))
         else head)"

definition path_join :: "string \<Rightarrow> string \<Rightarrow> string" where
  "path_join a b =
     (if startswith b ''/'' then b
      else if a = [] \<or> endswith a ''/'' then a @ b
      else a @ ''/'' @ b)"

subsection \<open>The sidecar file\<close>

text \<open>
  A file of the file system is read line by line: it yields some lines and then either
  ends or raises. A file that cannot be opened yields no line and raises. The file
  system maps a path to the file at that path, if there is one; \<open>os.path.exists\<close> is
  false for the empty path.
\<close>

record text_file =
  file_lines :: "string list"
  file_error :: "string option"

type_synonym file_system = "string \<Rightarrow> text_file option"

definition path_exists :: "file_system \<Rightarrow> string \<Rightarrow> bool" where
  "path_exists fs p = (p \<noteq> [] \<and> fs p \<noteq> None)"

text \<open>The loop over \<open>proto_paths\<close>, which stops at the first candidate that exists.\<close>

fun find_in_proto_paths :: "file_system \<Rightarrow> string \<Rightarrow> string list \<Rightarrow> string option" where
  "find_in_proto_paths fs options_filename [] = None"
| "find_in_proto_paths fs options_filename (path # paths) =
     (if path_exists fs (path_join path options_filename)
      then Some (path_join path options_filename)
      else if path_exists fs (path_join path (basename options_filename))
      then Some (path_join path (basename options_filename))
      else find_in_proto_paths fs options_filename paths)"

text \<open>
  The search for the sidecar file. The source keeps the file found so far in
  \<open>options_file\<close> and goes to the next place while it is \<open>None\<close>.
\<close>

definition find_options_file :: "file_system \<Rightarrow> string \<Rightarrow> string list \<Rightarrow> string option" where
  "find_options_file fs proto_file_name proto_paths =
     (let options_filename = str_replace proto_file_name ''.proto'' ''.options'';
          options_file1 =
            (if isabs proto_file_name \<and> path_exists fs options_filename
             then Some options_filename else None);
          options_file2 =
            (if options_file1 = None then
               (let proto_dir = dirname proto_file_name
                in if proto_dir \<noteq> []
                      \<and> path_exists fs (path_join proto_dir (basename options_filename))
                   then Some (path_join proto_dir (basename options_filename))
                   else None)
             else options_file1);
          options_file3 =
            (if options_file2 = None then find_in_proto_paths fs options_filename proto_paths
             else options_file2)
      in if options_file3 = None then
           (if path_exists fs (basename options_filename)
            then Some (basename options_filename) else None)
         else options_file3)"







section \<open>The server emitter (generator/gen\_server\_nanopb.py)\<close>

definition get_nanopb_type_name :: "string \<Rightarrow> string \<Rightarrow> string" where
  "get_nanopb_type_name proto_package name =
     (if proto_package = [] then name
      else str_replace proto_package ''.'' ''_'' @ ''_'' @ name)"

text \<open>
  The lines appended for the handler of one method (the loop ``Implementation of each
  handler''). \<open>messages_with_pointers\<close> is the registry of the pointer-field analyzer.
\<close>

definition server_handler_lines ::
  "string \<Rightarrow> string set \<Rightarrow> ServiceDescriptorProto \<Rightarrow> MethodDescriptorProto \<Rightarrow> string list" where
  \<open>server_handler_lines package messages_with_pointers service method =
     (let req_msg_name = last (split_sep CHR ''.'' (mth_input_type method));
          res_msg_name = last (split_sep CHR ''.'' (mth_output_type method));
          req_type = get_nanopb_type_name package req_msg_name;
          res_type = get_nanopb_type_name package res_msg_name;
          req_needs_release = (req_msg_name \<in> messages_with_pointers);
          res_needs_release = (res_msg_name \<in> messages_with_pointers)
      in [''zenoh_rpc::RpcStatus '' @ svc_name service @ ''Server::handle_'' @ mth_name method @ ''('',
          ''    pb_istream_t* req_stream, pb_ostream_t* resp_stream) {'',
          ''  // Decode request'',
          ''  '' @ req_type @ '' request = '' @ req_type @ ''_init_zero;'',
          ''  if (!pb_decode(req_stream, '' @ req_type @ ''_fields, &request)) {'',
          ''    LOG_ERR("Failed to decode '' @ req_msg_name @ ''");'',
          ''    return zenoh_rpc::RpcStatus::DECODE_ERROR;'',
          ''  }'',
          '''',
          ''  // Call implementation'',
          ''  '' @ res_type @ '' response = '' @ res_type @ ''_init_zero;'',
          ''  zenoh_rpc::RpcStatus status = impl_.'' @ mth_name method @ ''(request, &response);'',
          ''  if (status != zenoh_rpc::RpcStatus::OK) {'']
         @ (if req_needs_release then [''    pb_release('' @ req_type @ ''_fields, &request);''] else [])
         @ [''    return status;'',
            ''  }'',
            '''',
            ''  // Encode response directly to stream (zero-copy)'',
            ''  if (!pb_encode(resp_stream, '' @ res_type @ ''_fields, &response)) {'',
            ''    LOG_ERR("Failed to encode '' @ res_msg_name @ ''");'']
         @ (if req_needs_release then [''    pb_release('' @ req_type @ ''_fields, &request);''] else [])
         @ (if res_needs_release then [''    pb_release('' @ res_type @ ''_fields, &response);''] else [])
         @ [''    return zenoh_rpc::RpcStatus::ENCODE_ERROR;'',
            ''  }'',
            '''']
         @ (if req_needs_release \<or> res_needs_release then
              [''  // Release allocated memory'']
              @ (if req_needs_release then [''  pb_release('' @ req_type @ ''_fields, &request);''] else [])
              @ (if res_needs_release then [''  pb_release('' @ res_type @ ''_fields, &response);''] else [])
              @ ['''']
            else [])
         @ [''  return zenoh_rpc::RpcStatus::OK;'',
            ''}'',
            ''''])\<close>

subsection \<open>The emitted handler as a program\<close>

text \<open>
  The emitted handler is a sequence of statements of a few shapes. A guarded step runs
  its operation and, when the operation fails, the block in braces after it; each such
  block of the emitter ends with a \<open>return\<close>. The text of a program is given by
  \<open>render_handler\<close>; the emitted lines are the text of \<open>handler_program\<close>.
\<close>

datatype release_target = Request | Response

datatype RpcStatus = OK | DECODE_ERROR | ENCODE_ERROR | OtherStatus string

datatype block_statement =
    Release release_target
  | LogError string
  | ReturnStatusVariable
  | Return RpcStatus

datatype statement =
    Comment string
  | Blank
  | Plain block_statement
  | DecodeOrElse "block_statement list"
  | CallOrElse "block_statement list"
  | EncodeOrElse "block_statement list"

record handler_names =
  req_type_name :: string
  res_type_name :: string
  impl_method_name :: string

text \<open>
  \<open>zenoh_rpc::RpcStatus\<close> is declared outside the generator; the emitter names three
  of its values, any other value is known by its name.
\<close>

definition status_name :: "RpcStatus \<Rightarrow> string" where
  "status_name s =
     (case s of OK \<Rightarrow> ''OK'' | DECODE_ERROR \<Rightarrow> ''DECODE_ERROR''
      | ENCODE_ERROR \<Rightarrow> ''ENCODE_ERROR'' | OtherStatus name \<Rightarrow> name)"

fun render_block_statement :: "handler_names \<Rightarrow> string \<Rightarrow> block_statement \<Rightarrow> string" where
  \<open>render_block_statement names indent (Release Request) =
     indent @ ''pb_release('' @ req_type_name names @ ''_fields, &request);''\<close>
| \<open>render_block_statement names indent (Release Response) =
     indent @ ''pb_release('' @ res_type_name names @ ''_fields, &response);''\<close>
| \<open>render_block_statement names indent (LogError msg) =
     indent @ ''LOG_ERR("'' @ msg @ ''");''\<close>
| \<open>render_block_statement names indent ReturnStatusVariable = indent @ ''return status;''\<close>
| \<open>render_block_statement names indent (Return s) =
     indent @ ''return zenoh_rpc::RpcStatus::'' @ status_name s @ '';''\<close>

fun render_statement :: "handler_names \<Rightarrow> statement \<Rightarrow> string list" where
  \<open>render_statement names (Comment c) = [''  // '' @ c]\<close>
| \<open>render_statement names Blank = ['''']\<close>
| \<open>render_statement names (Plain s) = [render_block_statement names ''  '' s]\<close>
| \<open>render_statement names (DecodeOrElse block) =
     [''  '' @ req_type_name names @ '' request = '' @ req_type_name names @ ''_init_zero;'',
      ''  if (!pb_decode(req_stream, '' @ req_type_name names @ ''_fields, &request)) {'']
     @ map (render_block_statement names ''    '') block
     @ [''  }'']\<close>
| \<open>render_statement names (CallOrElse block) =
     [''  '' @ res_type_name names @ '' response = '' @ res_type_name names @ ''_init_zero;'',
      ''  zenoh_rpc::RpcStatus status = impl_.'' @ impl_method_name names @ ''(request, &response);'',
      ''  if (status != zenoh_rpc::RpcStatus::OK) {'']
     @ map (render_block_statement names ''    '') block
     @ [''  }'']\<close>
| \<open>render_statement names (EncodeOrElse block) =
     [''  if (!pb_encode(resp_stream, '' @ res_type_name names @ ''_fields, &response)) {'']
     @ map (render_block_statement names ''    '') block
     @ [''  }'']\<close>

definition render_handler :: "string \<Rightarrow> handler_names \<Rightarrow> statement list \<Rightarrow> string list" where
  \<open>render_handler service_name names program =
     [''zenoh_rpc::RpcStatus '' @ service_name @ ''Server::handle_'' @ impl_method_name names @ ''('',
      ''    pb_istream_t* req_stream, pb_ostream_t* resp_stream) {'']
     @ concat (map (render_statement names) program)
     @ [''}'', '''']\<close>

text \<open>
  The program the emitter writes for a method, from the two registry lookups and the
  names of the two messages.
\<close>

definition handler_program :: "bool \<Rightarrow> bool \<Rightarrow> string \<Rightarrow> string \<Rightarrow> statement list" where
  "handler_program req_needs_release res_needs_release req_msg_name res_msg_name =
     [Comment ''Decode request'',
      DecodeOrElse [LogError (''Failed to decode '' @ req_msg_name), Return DECODE_ERROR],
      Blank,
      Comment ''Call implementation'',
      CallOrElse ((if req_needs_release then [Release Request] else []) @ [ReturnStatusVariable]),
      Blank,
      Comment ''Encode response directly to stream (zero-copy)'',
      EncodeOrElse
        ([LogError (''Failed to encode '' @ res_msg_name)]
         @ (if req_needs_release then [Release Request] else [])
         @ (if res_needs_release then [Release Response] else [])
         @ [Return ENCODE_ERROR]),
      Blank]
     @ (if req_needs_release \<or> res_needs_release then
          [Comment ''Release allocated memory'']
          @ (if req_needs_release then [Plain (Release Request)] else [])
          @ (if res_needs_release then [Plain (Release Response)] else [])
          @ [Blank]
        else [])
     @ [Plain (Return OK)]"

subsection \<open>Running a handler\<close>

text \<open>
  A run of the handler is determined by what the three operations do: whether
  \<open>pb_decode\<close> succeeds, the status the implementation returns, and whether
  \<open>pb_encode\<close> succeeds. The run yields the operations in the order they happen
  and the status returned, \<open>None\<close> when the statements end without a \<open>return\<close>.
\<close>

record run_outcomes =
  decode_ok :: bool
  impl_status :: RpcStatus
  encode_ok :: bool

datatype handler_event = Decoded | Invoked | Encoded | Released release_target

fun run_block :: "RpcStatus \<Rightarrow> block_statement list \<Rightarrow> handler_event list \<times> RpcStatus option" where
  "run_block status [] = ([], None)"
| "run_block status (Release t # rest) =
     (Released t # fst (run_block status rest), snd (run_block status rest))"
| "run_block status (LogError msg # rest) = run_block status rest"
| "run_block status (ReturnStatusVariable # rest) = ([], Some status)"
| "run_block status (Return s # rest) = ([], Some s)"

definition and_then ::
  "handler_event list \<times> RpcStatus option \<Rightarrow> handler_event list \<times> RpcStatus option
     \<Rightarrow> handler_event list \<times> RpcStatus option" where
  "and_then first later =
     (case snd first of
        Some s \<Rightarrow> first
      | None \<Rightarrow> (fst first @ fst later, snd later))"

fun run_handler :: "run_outcomes \<Rightarrow> statement list \<Rightarrow> handler_event list \<times> RpcStatus option" where
  "run_handler out [] = ([], None)"
| "run_handler out (Comment c # rest) = run_handler out rest"
| "run_handler out (Blank # rest) = run_handler out rest"
| "run_handler out (Plain s # rest) =
     and_then (run_block (impl_status out) [s]) (run_handler out rest)"
| "run_handler out (DecodeOrElse block # rest) =
     and_then ([Decoded], None)
       (if decode_ok out then run_handler out rest
        else and_then (run_block (impl_status out) block) (run_handler out rest))"
| "run_handler out (CallOrElse block # rest) =
     and_then ([Invoked], None)
       (if impl_status out = OK then run_handler out rest
        else and_then (run_block (impl_status out) block) (run_handler out rest))"
| "run_handler out (EncodeOrElse block # rest) =
     and_then ([Encoded], None)
       (if encode_ok out then run_handler out rest
        else and_then (run_block (impl_status out) block) (run_handler out rest))"

section \<open>Properties of the name mangling\<close>

lemma lower_char_not_upper: "\<not> is_upper (lower_char c)"
  by (auto simp: lower_char_def is_upper_def)

lemma lower_no_upper: "c \<in> set (lower s) \<Longrightarrow> \<not> is_upper c"
  by (auto simp: lower_def lower_char_not_upper)

lemma lower_fixed: "\<forall>c\<in>set s. \<not> is_upper c \<Longrightarrow> lower s = s"
  by (induction s) (auto simp: lower_def lower_char_def)

lemma re_sub_word_fixed: "\<forall>c\<in>set s. \<not> is_upper c \<Longrightarrow> re_sub_word s = s"
  by (induction s rule: re_sub_word.induct) (auto split: list.splits)

lemma re_sub_hump_fixed: "\<forall>c\<in>set s. \<not> is_upper c \<Longrightarrow> re_sub_hump s = s"
  by (induction s rule: re_sub_hump.induct) auto

text \<open>
  Claim C10: \<open>to_snake_case\<close> is idempotent and its result has no upper-case ASCII
  letter, for every string.
\<close>

theorem to_snake_case_idempotent_lowercase:
  "to_snake_case (to_snake_case s) = to_snake_case s \<and>
   (\<forall>c\<in>set (to_snake_case s). \<not> is_upper c)"
proof -
  have low: "\<forall>c\<in>set (to_snake_case s). \<not> is_upper c"
    by (simp add: to_snake_case_def lower_no_upper)
  then show ?thesis
    by (simp add: to_snake_case_def [of "to_snake_case s"] re_sub_word_fixed re_sub_hump_fixed lower_fixed)
qed

theorem to_snake_case_idempotent_lowercase_witness:
  "to_snake_case ''SetLed'' = ''set_led'' \<and>
   to_snake_case (to_snake_case ''SetLed'') = ''set_led'' \<and>
   \<not> is_upper (hd (to_snake_case ''SetLed''))"
proof -
  have "to_snake_case ''SetLed'' = ''set_led''" by code_simp
  then show ?thesis using to_snake_case_idempotent_lowercase [of "''SetLed''"] by simp
qed

section \<open>Properties of the RPC transport client\<close>

text \<open>
  Claim C3: the key expression of a call is \<open><d>/rpc/<S>/<M>\<close> when the device id is
  set (not empty) and \<open>rpc/<S>/<M>\<close> otherwise, and it is the key the session is
  queried with; device id \<open>dev1\<close>, service \<open>DeviceService\<close> and method \<open>SetLed\<close> give
  \<open>dev1/rpc/DeviceService/SetLed\<close>, the empty device id gives
  \<open>rpc/DeviceService/SetLed\<close>.
\<close>

theorem call_key_expr_scheme:
  "(d \<noteq> [] \<longrightarrow> call_key_expr d S M = d @ ''/rpc/'' @ S @ ''/'' @ M) \<and>
   call_key_expr [] S M = ''rpc/'' @ S @ ''/'' @ M \<and>
   call_key_expr ''dev1'' ''DeviceService'' ''SetLed'' = ''dev1/rpc/DeviceService/SetLed'' \<and>
   call_key_expr [] ''DeviceService'' ''SetLed'' = ''rpc/DeviceService/SetLed'' \<and>
   (session self (call_key_expr (device_id self) S M) req t = GetReturns [Reply (ReplyOk p)]
      \<longrightarrow> call self S M req t = RpcResult True p None)"
  by (simp add: call_key_expr_def call_def)

theorem call_key_expr_scheme_witness:
  "call_key_expr ''dev1'' ''Svc'' ''Get'' = ''dev1/rpc/Svc/Get'' \<and>
   call \<lparr>session = (\<lambda>k q t. if k = ''dev1/rpc/Svc/Get'' then GetReturns [Reply (ReplyOk [7])]
                              else GetRaises ''no such key''),
         device_id = ''dev1''\<rparr> ''Svc'' ''Get'' [] 5000
     = RpcResult True [7] None"
  using call_key_expr_scheme [of "''dev1''" "''Svc''" "''Get''"
      "\<lparr>session = (\<lambda>k q t. if k = ''dev1/rpc/Svc/Get'' then GetReturns [Reply (ReplyOk [7])]
                              else GetRaises ''no such key''),
         device_id = ''dev1''\<rparr>" "[]" 5000 "[7]"]
  by simp

text \<open>
  Claim C8: a call takes at most one reply from the iterator and its result is that of
  the first reply, ok or error; no reply before the timeout gives a failure whose error
  text differs from that of every explicit error reply; an exception of the transport
  (raised by \<open>session.get\<close> or by the iterator) becomes a failure result carrying its
  message. \<open>call\<close> returns an \<open>RpcResult\<close> in every case.
\<close>

theorem call_first_reply_wins:
  "length replies - length (snd (call_loop replies)) \<le> 1 \<and>
   snd (call_loop (ev # rest)) = rest \<and>
   (session self (call_key_expr (device_id self) S M) req t = GetReturns (Reply (ReplyOk p) # rest)
      \<longrightarrow> call self S M req t = RpcResult True p None) \<and>
   (session self (call_key_expr (device_id self) S M) req t = GetReturns (Reply (ReplyErr e) # rest)
      \<longrightarrow> call self S M req t = RpcResult False [] (Some (''Reply error: '' @ e))) \<and>
   (session self (call_key_expr (device_id self) S M) req t = GetReturns []
      \<longrightarrow> call self S M req t = RpcResult False [] (Some ''No reply received'')) \<and>
   ''No reply received'' \<noteq> ''Reply error: '' @ e \<and>
   (session self (call_key_expr (device_id self) S M) req t = GetRaises msg
      \<longrightarrow> call self S M req t = RpcResult False [] (Some msg)) \<and>
   (session self (call_key_expr (device_id self) S M) req t = GetReturns (IterRaises msg # rest)
      \<longrightarrow> call self S M req t = RpcResult False [] (Some msg))"
proof -
  have consumed: "length replies - length (snd (call_loop replies)) \<le> 1"
    by (cases replies rule: call_loop.cases) simp_all
  have left: "snd (call_loop (ev # rest)) = rest"
    by (cases "ev # rest" rule: call_loop.cases) auto
  show ?thesis
    using consumed left by (simp add: call_def)
qed

theorem call_first_reply_wins_witness:
  "call \<lparr>session = (\<lambda>k q t. GetReturns [Reply (ReplyErr ''busy''), Reply (ReplyOk [1])]),
         device_id = ''dev1''\<rparr> ''Svc'' ''Get'' [] 5000
     = RpcResult False [] (Some ''Reply error: busy'') \<and>
   call \<lparr>session = (\<lambda>k q t. GetReturns [Reply (ReplyOk [1]), Reply (ReplyErr ''busy'')]),
         device_id = ''dev1''\<rparr> ''Svc'' ''Get'' [] 5000
     = RpcResult True [1] None \<and>
   call \<lparr>session = (\<lambda>k q t. GetReturns []), device_id = ''dev1''\<rparr> ''Svc'' ''Get'' [] 5000
     = RpcResult False [] (Some ''No reply received'') \<and>
   call \<lparr>session = (\<lambda>k q t. GetRaises ''session closed''), device_id = ''dev1''\<rparr>
        ''Svc'' ''Get'' [] 5000
     = RpcResult False [] (Some ''session closed'') \<and>
   snd (call_loop [Reply (ReplyErr ''busy''), Reply (ReplyOk [1])]) = [Reply (ReplyOk [1])]"
  using
    call_first_reply_wins [where self =
      "\<lparr>session = (\<lambda>k q t. GetReturns [Reply (ReplyErr ''busy''), Reply (ReplyOk [1])]),
        device_id = ''dev1''\<rparr>" and S = "''Svc''" and M = "''Get''" and req = "[]" and t = 5000
      and e = "''busy''" and ev = "Reply (ReplyErr ''busy'')" and rest = "[Reply (ReplyOk [1])]"]
    call_first_reply_wins [where self =
      "\<lparr>session = (\<lambda>k q t. GetReturns [Reply (ReplyOk [1]), Reply (ReplyErr ''busy'')]),
        device_id = ''dev1''\<rparr>" and S = "''Svc''" and M = "''Get''" and req = "[]" and t = 5000
      and p = "[1]" and rest = "[Reply (ReplyErr ''busy'')]"]
    call_first_reply_wins [where self =
      "\<lparr>session = (\<lambda>k q t. GetReturns []), device_id = ''dev1''\<rparr>"
      and S = "''Svc''" and M = "''Get''" and req = "[]" and t = 5000]
    call_first_reply_wins [where self =
      "\<lparr>session = (\<lambda>k q t. GetRaises ''session closed''), device_id = ''dev1''\<rparr>"
      and S = "''Svc''" and M = "''Get''" and req = "[]" and t = 5000 and msg = "''session closed''"]
  by simp

section \<open>Properties of the raw option extractor\<close>




































section \<open>Properties of the client emitter\<close>

lemma replace_scan_only_suffix:
  "old \<noteq> [] \<Longrightarrow> \<forall>i<length base. \<not> prefix old (drop i (base @ old)) \<Longrightarrow>
   replace_scan old new (base @ old) = base @ new"
proof (induction base)
  case Nil
  then obtain c cs where old: "old = c # cs" by (cases old) auto
  show ?case by (simp add: old)
next
  case (Cons b base)
  from Cons.prems(2) have head: "\<not> prefix old (b # base @ old)"
    by (auto dest: spec [of _ 0])
  have "\<forall>i<length base. \<not> prefix old (drop i (base @ old))"
  proof (intro allI impI)
    fix i assume "i < length base"
    with Cons.prems(2) have "\<not> prefix old (drop (Suc i) ((b # base) @ old))" by auto
    then show "\<not> prefix old (drop i (base @ old))" by simp
  qed
  with Cons.IH [OF Cons.prems(1)] have "replace_scan old new (base @ old) = base @ new" by simp
  with head show ?case by simp
qed

lemma telemetry_methods_member:
  "telemetry_methods request msgs = Inr methods \<Longrightarrow> msg \<in> set msgs \<Longrightarrow>
   \<exists>ls. telemetry_subscribe_lines request msg = Inr ls \<and> set ls \<subseteq> set methods"
proof (induction msgs arbitrary: methods)
  case Nil
  then show ?case by simp
next
  case (Cons m msgs)
  from Cons.prems(1) obtain ls rest where
    ls: "telemetry_subscribe_lines request m = Inr ls" and
    rest: "telemetry_methods request msgs = Inr rest" and
    methods: "methods = ls @ rest"
    by (auto split: sum.splits)
  show ?case
  proof (cases "msg = m")
    case True
    with ls methods show ?thesis by auto
  next
    case False
    with Cons.prems(2) have "msg \<in> set msgs" by simp
    from Cons.IH [OF rest this] methods show ?thesis by auto
  qed
qed

lemma telemetry_methods_error:
  "telemetry_methods request msgs = Inl e \<Longrightarrow>
   \<exists>msg\<in>set msgs. telemetry_subscribe_lines request msg = Inl e"
  by (induction msgs) (auto split: sum.splits)

lemma client_file_lines_Inr:
  "client_file_lines request proto_file = Inr content \<Longrightarrow>
   \<exists>tel. telemetry_lines request proto_file = Inr tel \<and>
     content = client_header_lines proto_file
       @ concat (map (client_service_lines (get_message_map proto_file)) (pf_service proto_file))
       @ tel"
  by (auto simp: client_file_lines_def Let_def split: sum.splits)

lemma telemetry_lines_Inr:
  "telemetry_lines request proto_file = Inr tel \<Longrightarrow>
   filter (\<lambda>m. endswith (msg_name m) ''Telemetry'') (pf_message_type proto_file) \<noteq> [] \<Longrightarrow>
   \<exists>methods. telemetry_methods request
       (filter (\<lambda>m. endswith (msg_name m) ''Telemetry'') (pf_message_type proto_file)) = Inr methods \<and>
     tel = telemetry_class_head @ methods @ telemetry_class_tail"
  by (auto simp: telemetry_lines_def Let_def split: sum.splits if_splits)

lemma client_file_lines_telemetry:
  assumes "client_file_lines request proto_file = Inr content"
    and "msg \<in> set (pf_message_type proto_file)"
    and "endswith (msg_name msg) ''Telemetry''"
  shows "\<exists>ls. telemetry_subscribe_lines request msg = Inr ls \<and> set ls \<subseteq> set content"
proof -
  let ?tm = "filter (\<lambda>m. endswith (msg_name m) ''Telemetry'') (pf_message_type proto_file)"
  from assms(2,3) have mem: "msg \<in> set ?tm" by simp
  then have ne: "?tm \<noteq> []" by (metis empty_iff list.set(1))
  from client_file_lines_Inr [OF assms(1)] obtain tel where
    tel: "telemetry_lines request proto_file = Inr tel" and
    content: "content = client_header_lines proto_file
       @ concat (map (client_service_lines (get_message_map proto_file)) (pf_service proto_file))
       @ tel"
    by blast
  from content have sub: "set tel \<subseteq> set content" by auto
  from telemetry_lines_Inr [OF tel ne] obtain methods where
    meth: "telemetry_methods request ?tm = Inr methods" and
    tel_eq: "tel = telemetry_class_head @ methods @ telemetry_class_tail"
    by blast
  from tel_eq have sub2: "set methods \<subseteq> set tel" by auto
  from telemetry_methods_member [OF meth mem] sub sub2 show ?thesis by blast
qed

lemma client_file_lines_method:
  assumes "client_file_lines request proto_file = Inr content"
    and "service \<in> set (pf_service proto_file)"
    and "method \<in> set (svc_method service)"
  shows "set (client_method_lines (get_message_map proto_file) method) \<subseteq> set content"
proof -
  from assms(3) have "set (client_method_lines (get_message_map proto_file) method)
      \<subseteq> set (client_service_lines (get_message_map proto_file) service)"
    by (auto simp: client_service_lines_def)
  also from assms(2) have "\<dots> \<subseteq> set (concat (map (client_service_lines (get_message_map proto_file))
      (pf_service proto_file)))"
    by auto
  also from client_file_lines_Inr [OF assms(1)] have "\<dots> \<subseteq> set content"
    by auto
  finally show ?thesis .
qed

lemma client_file_lines_error:
  assumes "client_file_lines request proto_file = Inl e"
  shows "\<exists>msg\<in>set (pf_message_type proto_file).
           get_option_value (msg_options msg) (find_zenoh_key request) = Inl e"
proof -
  from assms have "telemetry_lines request proto_file = Inl e"
    by (auto simp: client_file_lines_def Let_def split: sum.splits)
  then have "telemetry_methods request
      (filter (\<lambda>m. endswith (msg_name m) ''Telemetry'') (pf_message_type proto_file)) = Inl e"
    by (auto simp: telemetry_lines_def Let_def split: sum.splits if_splits)
  from telemetry_methods_error [OF this] obtain msg where
    "msg \<in> set (pf_message_type proto_file)" and "telemetry_subscribe_lines request msg = Inl e"
    by auto
  then show ?thesis
    by (auto simp: telemetry_subscribe_lines_def telemetry_zenoh_key_def Let_def
        split: sum.splits if_splits)
qed

lemma find_zenoh_key_in_extensions_None:
  "find_zenoh_key_in_extensions exts = None \<longleftrightarrow>
   (\<forall>ext\<in>set exts. \<not> endswith (fld_name ext) ''zenoh_key'')"
  by (induction exts) auto

lemma find_zenoh_key_in_extensions_Some:
  "find_zenoh_key_in_extensions exts = Some n \<Longrightarrow>
   \<exists>ext\<in>set exts. endswith (fld_name ext) ''zenoh_key'' \<and> fld_number ext = n"
  by (induction exts) (auto split: if_splits)

lemma find_zenoh_key_in_files_None:
  "find_zenoh_key_in_files files = None \<longleftrightarrow>
   (\<forall>proto_file\<in>set files. \<forall>ext\<in>set (pf_extension proto_file).
      \<not> endswith (fld_name ext) ''zenoh_key'')"
  by (induction files)
    (auto simp: find_zenoh_key_in_extensions_None split: option.splits
      dest: find_zenoh_key_in_extensions_Some)

lemma find_zenoh_key_in_files_Some:
  "find_zenoh_key_in_files files = Some n \<Longrightarrow>
   \<exists>proto_file\<in>set files. \<exists>ext\<in>set (pf_extension proto_file).
     endswith (fld_name ext) ''zenoh_key'' \<and> fld_number ext = n"
  by (induction files) (auto split: option.splits dest: find_zenoh_key_in_extensions_Some)

lemma telemetry_key_line:
  \<open>telemetry_subscribe_lines request msg = Inr ls \<Longrightarrow> telemetry_zenoh_key request msg = Inr k \<Longrightarrow>
   ''        key_expr = f"{self.device_id}'' @ k @ ''"'' \<in> set ls\<close>
  by (auto simp: telemetry_subscribe_lines_def Let_def)

lemma prefix_drop_in_butlast:
  assumes "prefix old (drop i (base @ old))" and "i < length base"
  shows "sublist old (butlast (base @ old))"
proof -
  from assms(1) obtain rest where rest: "drop i (base @ old) = old @ rest"
    by (auto simp: prefix_def)
  have whole: "base @ old = take i (base @ old) @ old @ rest"
    using append_take_drop_id [of i "base @ old"] rest by simp
  then have "length (base @ old) = length (take i (base @ old)) + length old + length rest"
    by (metis length_append add.assoc)
  with assms(2) have "rest \<noteq> []" by auto
  with whole have "butlast (base @ old) = take i (base @ old) @ old @ butlast rest"
    by (metis append_is_Nil_conv butlast_append)
  then show ?thesis
    unfolding sublist_def by blast
qed

lemma str_replace_only_suffix:
  assumes "old \<noteq> []" and "endswith s old" and "\<not> contains old (butlast s)"
  shows "str_replace s old [] = removesuffix s old"
proof -
  from assms(2) obtain base where s: "s = base @ old"
    by (auto simp: endswith_def suffix_def)
  have "\<forall>i<length base. \<not> prefix old (drop i (base @ old))"
    using assms(3) prefix_drop_in_butlast [of old _ base] by (auto simp: contains_def s)
  from replace_scan_only_suffix [OF assms(1) this, of "[]"] assms(1,2) show ?thesis
    by (simp add: str_replace_def removesuffix_def s)
qed

lemma sum_collapse_Inr: "\<not> isl x \<Longrightarrow> x = Inr (projr x)"
  by (cases x) simp_all

lemma keyed_eval:
  "find_zenoh_key keyed_request = 50123"
  "\<not> isl (client_file_lines keyed_request keyed_proto_file)"
  "get_option_value (msg_options (hd (pf_message_type keyed_proto_file))) 50123
     = Inr (Some ''/custom/status'')"
  "find_zenoh_key example_request = 50001"
  by code_simp+


text \<open>
  Claim C5: the field number of the custom option is 50001 when no extension of the
  request has a name ending with \<open>zenoh_key\<close>; when there is one, it is the number of
  such an extension (the first in the order of the files and their extensions). The
  number depends on the request only, and every telemetry message of a generated file
  has its subscriber key looked up at that number.
\<close>

theorem find_zenoh_key_run_wide:
  \<open>((\<forall>pf\<in>set (req_proto_file request). \<forall>ext\<in>set (pf_extension pf).
        \<not> endswith (fld_name ext) ''zenoh_key'')
      \<longrightarrow> find_zenoh_key request = 50001) \<and>
   ((\<exists>pf\<in>set (req_proto_file request). \<exists>ext\<in>set (pf_extension pf).
        endswith (fld_name ext) ''zenoh_key'')
      \<longrightarrow> (\<exists>pf\<in>set (req_proto_file request). \<exists>ext\<in>set (pf_extension pf).
             endswith (fld_name ext) ''zenoh_key'' \<and> find_zenoh_key request = fld_number ext)) \<and>
   (client_file_lines request proto_file = Inr content \<and>
    msg \<in> set (pf_message_type proto_file) \<and> endswith (msg_name msg) ''Telemetry''
      \<longrightarrow> (\<exists>zenoh_key.
             get_option_value (msg_options msg) (find_zenoh_key request) = Inr zenoh_key \<and>
             ''        key_expr = f"{self.device_id}''
               @ (if zenoh_key = None \<or> zenoh_key = Some []
                  then ''/telemetry/'' @ telemetry_snake_name msg else the zenoh_key)
               @ ''"'' \<in> set content))\<close>
proof (intro conjI impI)
  assume "\<forall>pf\<in>set (req_proto_file request). \<forall>ext\<in>set (pf_extension pf).
        \<not> endswith (fld_name ext) ''zenoh_key''"
  then have "find_zenoh_key_in_files (req_proto_file request) = None"
    by (simp add: find_zenoh_key_in_files_None)
  then show "find_zenoh_key request = 50001"
    by (simp add: find_zenoh_key_def)
next
  assume "\<exists>pf\<in>set (req_proto_file request). \<exists>ext\<in>set (pf_extension pf).
        endswith (fld_name ext) ''zenoh_key''"
  then have "find_zenoh_key_in_files (req_proto_file request) \<noteq> None"
    by (simp add: find_zenoh_key_in_files_None)
  then obtain n where n: "find_zenoh_key_in_files (req_proto_file request) = Some n"
    by auto
  then have "find_zenoh_key request = n"
    by (simp add: find_zenoh_key_def)
  with find_zenoh_key_in_files_Some [OF n]
  show "\<exists>pf\<in>set (req_proto_file request). \<exists>ext\<in>set (pf_extension pf).
             endswith (fld_name ext) ''zenoh_key'' \<and> find_zenoh_key request = fld_number ext"
    by metis
next
  assume a: "client_file_lines request proto_file = Inr content \<and>
    msg \<in> set (pf_message_type proto_file) \<and> endswith (msg_name msg) ''Telemetry''"
  then obtain ls where ls: "telemetry_subscribe_lines request msg = Inr ls"
    and sub: "set ls \<subseteq> set content"
    using client_file_lines_telemetry [of request proto_file content msg] by blast
  from ls obtain k where k: "telemetry_zenoh_key request msg = Inr k"
    by (auto simp: telemetry_subscribe_lines_def Let_def split: sum.splits)
  then obtain zenoh_key where
    zk: "get_option_value (msg_options msg) (find_zenoh_key request) = Inr zenoh_key" and
    kdef: "k = (if zenoh_key = None \<or> zenoh_key = Some []
                then ''/telemetry/'' @ telemetry_snake_name msg else the zenoh_key)"
    by (auto simp: telemetry_zenoh_key_def split: sum.splits if_splits)
  from telemetry_key_line [OF ls k] sub kdef zk
  show \<open>\<exists>zenoh_key.
             get_option_value (msg_options msg) (find_zenoh_key request) = Inr zenoh_key \<and>
             ''        key_expr = f"{self.device_id}''
               @ (if zenoh_key = None \<or> zenoh_key = Some []
                  then ''/telemetry/'' @ telemetry_snake_name msg else the zenoh_key)
               @ ''"'' \<in> set content\<close>
    by blast
qed

theorem find_zenoh_key_run_wide_witness:
  \<open>find_zenoh_key example_request = 50001 \<and>
   find_zenoh_key keyed_request = 50123 \<and>
   ''        key_expr = f"{self.device_id}/custom/status"''
     \<in> set (projr (client_file_lines keyed_request keyed_proto_file))\<close>
proof -
  let ?msg = "hd (pf_message_type keyed_proto_file)"
  let ?content = "projr (client_file_lines keyed_request keyed_proto_file)"
  have none: "\<forall>pf\<in>set (req_proto_file example_request). \<forall>ext\<in>set (pf_extension pf).
        \<not> endswith (fld_name ext) ''zenoh_key''"
    by (simp add: example_request_def example_proto_file_def)
  have ext: "\<lparr>fld_name = ''zenoh_key'', fld_number = 50123, fld_type = TYPE_STRING\<rparr>
        \<in> set (pf_extension keyed_proto_file)"
      "keyed_proto_file \<in> set (req_proto_file keyed_request)"
    by (simp_all add: keyed_request_def keyed_proto_file_def)
  have "endswith ''zenoh_key'' ''zenoh_key''"
    by (simp add: endswith_def)
  with ext have some: "\<exists>pf\<in>set (req_proto_file keyed_request). \<exists>ext\<in>set (pf_extension pf).
        endswith (fld_name ext) ''zenoh_key''"
    by force
  have gen: "client_file_lines keyed_request keyed_proto_file = Inr ?content"
    using keyed_eval(2) by (rule sum_collapse_Inr)
  have msg: "?msg \<in> set (pf_message_type keyed_proto_file)"
    "endswith (msg_name ?msg) ''Telemetry''"
    by (simp_all add: keyed_proto_file_def endswith_def suffix_to_prefix)
  have one: "\<And>pf ext. pf \<in> set (req_proto_file keyed_request) \<Longrightarrow> ext \<in> set (pf_extension pf)
      \<Longrightarrow> fld_number ext = 50123"
    by (auto simp: keyed_request_def keyed_proto_file_def)
  from find_zenoh_key_run_wide [of example_request] none
  have k1: "find_zenoh_key example_request = 50001" by blast
  from find_zenoh_key_run_wide [of keyed_request] some one
  have k2: "find_zenoh_key keyed_request = 50123" by metis
  from find_zenoh_key_run_wide [of keyed_request keyed_proto_file ?content ?msg] gen msg
  obtain zenoh_key where
    "get_option_value (msg_options ?msg) (find_zenoh_key keyed_request) = Inr zenoh_key"
    and line: \<open>''        key_expr = f"{self.device_id}''
               @ (if zenoh_key = None \<or> zenoh_key = Some []
                  then ''/telemetry/'' @ telemetry_snake_name ?msg else the zenoh_key)
               @ ''"'' \<in> set ?content\<close>
    by blast
  with k2 keyed_eval(3) have "zenoh_key = Some ''/custom/status''" by simp
  with line k1 k2 show ?thesis by simp
qed

text \<open>
  Claim C4, as stated, fails for a message whose name holds \<open>Telemetry\<close> more than
  once: the emitter deletes every occurrence, not the suffix only. For
  \<open>TelemetryLogTelemetry\<close> without a custom option the emitted key is
  \<open>/telemetry/log\<close>, while the name without its suffix gives \<open>/telemetry/telemetry_log\<close>.
\<close>

theorem telemetry_default_topic_counterexample:
  \<open>endswith (msg_name telemetry_log_message) ''Telemetry'' \<and>
   get_option_value (msg_options telemetry_log_message) (find_zenoh_key telemetry_log_request)
     = Inr None \<and>
   removesuffix (msg_name telemetry_log_message) ''Telemetry'' = ''TelemetryLog'' \<and>
   to_snake_case ''TelemetryLog'' = ''telemetry_log'' \<and>
   \<not> isl (client_file_lines telemetry_log_request telemetry_log_proto_file) \<and>
   ''        key_expr = f"{self.device_id}/telemetry/telemetry_log"''
     \<notin> set (projr (client_file_lines telemetry_log_request telemetry_log_proto_file)) \<and>
   ''        key_expr = f"{self.device_id}/telemetry/log"''
     \<in> set (projr (client_file_lines telemetry_log_request telemetry_log_proto_file))\<close>
  by code_simp

lemma example_eval:
  "\<not> isl (client_file_lines example_request example_proto_file)"
  "get_option_value [] (find_zenoh_key example_request) = Inr None"
  "\<not> contains ''Telemetry'' (butlast ''SensorTelemetry'')"
  "to_snake_case (removesuffix ''SensorTelemetry'' ''Telemetry'') = ''sensor''"
  by code_simp+

text \<open>
  Claim C4, amended: for every message of a generated file whose name ends with
  \<open>Telemetry\<close>, holds \<open>Telemetry\<close> nowhere else and carries no custom key option, the
  emitted subscriber builds its key expression from the device id and
  \<open>/telemetry/<snake_case(base-name)>\<close>, where the base name is the name without the
  suffix; for \<open>SensorTelemetry\<close> and the device id \<open>dev1\<close> this is
  \<open>dev1/telemetry/sensor\<close>.
\<close>

theorem telemetry_default_topic:
  assumes "client_file_lines request proto_file = Inr content"
    and "msg \<in> set (pf_message_type proto_file)"
    and "endswith (msg_name msg) ''Telemetry''"
    and "\<not> contains ''Telemetry'' (butlast (msg_name msg))"
    and "get_option_value (msg_options msg) (find_zenoh_key request) = Inr None"
  shows \<open>''        key_expr = f"{self.device_id}/telemetry/''
            @ to_snake_case (removesuffix (msg_name msg) ''Telemetry'') @ ''"'' \<in> set content \<and>
         subscribe_key_expr dev
            (''/telemetry/'' @ to_snake_case (removesuffix (msg_name msg) ''Telemetry''))
          = dev @ ''/telemetry/'' @ to_snake_case (removesuffix (msg_name msg) ''Telemetry'')\<close>
proof -
  from client_file_lines_telemetry [OF assms(1-3)] obtain ls where
    ls: "telemetry_subscribe_lines request msg = Inr ls" and sub: "set ls \<subseteq> set content"
    by blast
  have "str_replace (msg_name msg) ''Telemetry'' [] = removesuffix (msg_name msg) ''Telemetry''"
    using assms(3,4) by (intro str_replace_only_suffix) simp_all
  then have snake: "telemetry_snake_name msg
      = to_snake_case (removesuffix (msg_name msg) ''Telemetry'')"
    by (simp add: telemetry_snake_name_def)
  from assms(5) have "telemetry_zenoh_key request msg
      = Inr (''/telemetry/'' @ to_snake_case (removesuffix (msg_name msg) ''Telemetry''))"
    by (simp add: telemetry_zenoh_key_def snake)
  from telemetry_key_line [OF ls this] sub show ?thesis
    by (auto simp: subscribe_key_expr_def)
qed

theorem telemetry_default_topic_witness:
  \<open>''        key_expr = f"{self.device_id}/telemetry/sensor"''
     \<in> set (projr (client_file_lines example_request example_proto_file)) \<and>
   subscribe_key_expr ''dev1'' ''/telemetry/sensor'' = ''dev1/telemetry/sensor''\<close>
proof -
  let ?msg = "\<lparr>msg_name = ''SensorTelemetry'', msg_field = [], msg_options = []\<rparr>"
  have gen: "client_file_lines example_request example_proto_file
      = Inr (projr (client_file_lines example_request example_proto_file))"
    using example_eval(1) by (rule sum_collapse_Inr)
  have mem: "?msg \<in> set (pf_message_type example_proto_file)"
    by (simp add: example_proto_file_def example_messages_def)
  have ends: "endswith (msg_name ?msg) ''Telemetry''"
    by (simp add: endswith_def suffix_to_prefix)
  from telemetry_default_topic [OF gen mem ends, of "''dev1''"] example_eval(2-4)
  show ?thesis by simp
qed








text \<open>
  The emitter reproduces the text of the two methods of the generated unit in the
  repository (lines 14 to 25 and 50 to 59 of tools/rpc/service\_client.py).
\<close>

lemma emitter_reproduces_set_led:
  \<open>client_method_lines (get_message_map example_proto_file) (svc_method example_service ! 0) =
     [''    def set_led(self, request: Optional[pb.LedRequest] = None, *, on: Optional[bool] = None) -> tuple[RpcResponse, Optional[pb.LedResponse]]:'',
      ''        """SetLed RPC call."""'',
      ''        if request is None:'',
      ''            request = pb.LedRequest(on=on)'',
      '''',
      ''        result = self.rpc_client.call(self.SERVICE_NAME, "SetLed", request.SerializeToString())'',
      ''        if result.success:'',
      ''            response = pb.LedResponse()'',
      ''            response.ParseFromString(result.data)'',
      ''            return RpcResponse(success=True), response'',
      ''        return RpcResponse(success=False, error=result.error), None'',
      '''']\<close>
  by code_simp

lemma emitter_reproduces_start_sensor_stream:
  \<open>client_method_lines (get_message_map example_proto_file) (svc_method example_service ! 1) =
     [''    def start_sensor_stream(self, request: Optional[pb.SensorRequest] = None) -> RpcResponse:'',
      ''        """StartSensorStream RPC call."""'',
      ''        if request is None:'',
      ''            request = pb.SensorRequest()'',
      '''',
      ''        result = self.rpc_client.call(self.SERVICE_NAME, "StartSensorStream", request.SerializeToString())'',
      ''        if result.success:'',
      ''            return RpcResponse(success=True)'',
      ''        return RpcResponse(success=False, error=result.error)'',
      '''']\<close>
  by code_simp




lemma example_reset_eval:
  "get_message_map example_proto_file ''.other.ResetRequest'' = None"
  "to_snake_case ''Reset'' = ''reset''"
  "last (split_sep CHR ''.'' ''.other.ResetRequest'') = ''ResetRequest''"
  "endswith ''.practice.rpc.Empty'' ''Empty''"
  by code_simp+

text \<open>
  Claim C9: when the input type of a method does not resolve in the message map of its
  file, the emitted call takes the optional pre-built request as its only parameter and
  builds the request without arguments, and these lines are part of the generated unit.
  Generation does not end for this reason: the method lines are produced by a total
  function, and an exception of the generation of a file comes from the option
  extractor on a message of that file.
\<close>

theorem unresolved_input_type_zero_arguments:
  assumes "get_message_map proto_file (mth_input_type mth) = None"
    and "service \<in> set (pf_service proto_file)"
    and "mth \<in> set (svc_method service)"
  shows \<open>take 4 (client_method_lines (get_message_map proto_file) mth) =
       [''    def '' @ to_snake_case (mth_name mth) @ ''(self, request: Optional[pb.''
          @ last (split_sep CHR ''.'' (mth_input_type mth)) @ ''] = None) -> ''
          @ (if endswith (mth_output_type mth) ''Empty'' then ''RpcResponse''
             else ''tuple[RpcResponse, Optional[pb.''
                  @ last (split_sep CHR ''.'' (mth_output_type mth)) @ '']]'')
          @ '':'',
        ''        """'' @ mth_name mth @ '' RPC call."""'',
        ''        if request is None:'',
        ''            request = pb.'' @ last (split_sep CHR ''.'' (mth_input_type mth)) @ ''()''] \<and>
     (\<forall>content. client_file_lines request proto_file = Inr content \<longrightarrow>
        set (take 4 (client_method_lines (get_message_map proto_file) mth)) \<subseteq> set content) \<and>
     (\<forall>e. client_file_lines request proto_file = Inl e \<longrightarrow>
        (\<exists>msg\<in>set (pf_message_type proto_file).
           get_option_value (msg_options msg) (find_zenoh_key request) = Inl e))\<close>
proof (intro conjI allI impI)
  show \<open>take 4 (client_method_lines (get_message_map proto_file) mth) =
       [''    def '' @ to_snake_case (mth_name mth) @ ''(self, request: Optional[pb.''
          @ last (split_sep CHR ''.'' (mth_input_type mth)) @ ''] = None) -> ''
          @ (if endswith (mth_output_type mth) ''Empty'' then ''RpcResponse''
             else ''tuple[RpcResponse, Optional[pb.''
                  @ last (split_sep CHR ''.'' (mth_output_type mth)) @ '']]'')
          @ '':'',
        ''        """'' @ mth_name mth @ '' RPC call."""'',
        ''        if request is None:'',
        ''            request = pb.'' @ last (split_sep CHR ''.'' (mth_input_type mth)) @ ''()'']\<close>
    using assms(1) by (simp add: client_method_lines_def Let_def)
next
  fix content
  assume "client_file_lines request proto_file = Inr content"
  from client_file_lines_method [OF this assms(2,3)]
  show "set (take 4 (client_method_lines (get_message_map proto_file) mth)) \<subseteq> set content"
    using set_take_subset [of 4 "client_method_lines (get_message_map proto_file) mth"]
    by blast
next
  fix e
  assume "client_file_lines request proto_file = Inl e"
  then show "\<exists>msg\<in>set (pf_message_type proto_file).
           get_option_value (msg_options msg) (find_zenoh_key request) = Inl e"
    by (rule client_file_lines_error)
qed

theorem unresolved_input_type_zero_arguments_witness:
  \<open>get_message_map example_proto_file ''.other.ResetRequest'' = None \<and>
   ''    def reset(self, request: Optional[pb.ResetRequest] = None) -> RpcResponse:''
     \<in> set (projr (client_file_lines example_request example_proto_file)) \<and>
   ''            request = pb.ResetRequest()''
     \<in> set (projr (client_file_lines example_request example_proto_file))\<close>
proof -
  let ?mth = "\<lparr>mth_name = ''Reset'', mth_input_type = ''.other.ResetRequest'',
           mth_output_type = ''.practice.rpc.Empty''\<rparr>"
  have gen: "client_file_lines example_request example_proto_file
      = Inr (projr (client_file_lines example_request example_proto_file))"
    using example_eval(1) by (rule sum_collapse_Inr)
  have unresolved: "get_message_map example_proto_file (mth_input_type ?mth) = None"
    using example_reset_eval(1) by simp
  have service: "example_service \<in> set (pf_service example_proto_file)"
    by (simp add: example_proto_file_def)
  have member: "?mth \<in> set (svc_method example_service)"
    by (simp add: example_service_def)
  from unresolved_input_type_zero_arguments [OF unresolved service member, of example_request]
    gen example_reset_eval
  show ?thesis by auto
qed

section \<open>Properties of the pointer-field analyzer\<close>

lemma find_in_proto_paths_exists:
  "find_in_proto_paths fs options_filename paths = Some p \<Longrightarrow> path_exists fs p"
  by (induction paths) (auto split: if_splits)

lemma find_options_file_exists:
  "find_options_file fs proto_file_name proto_paths = Some p \<Longrightarrow> path_exists fs p"
  by (auto simp: find_options_file_def Let_def split: if_splits
      dest: find_in_proto_paths_exists)






















section \<open>Properties of the server emitter\<close>

lemma server_handler_lines_program:
  "server_handler_lines package messages_with_pointers service mth =
     render_handler (svc_name service)
       \<lparr>req_type_name = get_nanopb_type_name package (last (split_sep CHR ''.'' (mth_input_type mth))),
        res_type_name = get_nanopb_type_name package (last (split_sep CHR ''.'' (mth_output_type mth))),
        impl_method_name = mth_name mth\<rparr>
       (handler_program
          (last (split_sep CHR ''.'' (mth_input_type mth)) \<in> messages_with_pointers)
          (last (split_sep CHR ''.'' (mth_output_type mth)) \<in> messages_with_pointers)
          (last (split_sep CHR ''.'' (mth_input_type mth)))
          (last (split_sep CHR ''.'' (mth_output_type mth))))"
  by (simp add: server_handler_lines_def render_handler_def handler_program_def Let_def
      status_name_def)

lemma run_handler_decode_failure:
  "\<not> decode_ok out \<Longrightarrow>
   run_handler out (handler_program rq rs a b) = ([Decoded], Some DECODE_ERROR)"
  by (simp add: handler_program_def and_then_def)

lemma run_handler_impl_failure:
  "decode_ok out \<Longrightarrow> impl_status out \<noteq> OK \<Longrightarrow>
   run_handler out (handler_program rq rs a b)
     = ([Decoded, Invoked] @ (if rq then [Released Request] else []), Some (impl_status out))"
  by (simp add: handler_program_def and_then_def)

lemma run_handler_encode_failure:
  "decode_ok out \<Longrightarrow> impl_status out = OK \<Longrightarrow> \<not> encode_ok out \<Longrightarrow>
   run_handler out (handler_program rq rs a b)
     = ([Decoded, Invoked, Encoded]
          @ (if rq then [Released Request] else []) @ (if rs then [Released Response] else []),
        Some ENCODE_ERROR)"
  by (simp add: handler_program_def and_then_def)

lemma run_handler_success:
  "decode_ok out \<Longrightarrow> impl_status out = OK \<Longrightarrow> encode_ok out \<Longrightarrow>
   run_handler out (handler_program rq rs a b)
     = ([Decoded, Invoked, Encoded]
          @ (if rq then [Released Request] else []) @ (if rs then [Released Response] else []),
        Some OK)"
  by (simp add: handler_program_def and_then_def)

text \<open>
  Claim C2, as stated, fails: a release does not occur on every exit of the handler of a
  pointer-bearing message. On the exit for a decode failure nothing is released, also
  when request and response are pointer-bearing; on the exit for a failing
  implementation a pointer-bearing response is not released.
\<close>

theorem server_handler_release_counterexample:
  "run_handler \<lparr>decode_ok = False, impl_status = OK, encode_ok = True\<rparr>
     (handler_program True True ''EchoRequestMalloc'' ''EchoResponseMalloc'')
     = ([Decoded], Some DECODE_ERROR) \<and>
   Released Request \<notin> set (fst (run_handler \<lparr>decode_ok = False, impl_status = OK, encode_ok = True\<rparr>
     (handler_program True True ''EchoRequestMalloc'' ''EchoResponseMalloc''))) \<and>
   run_handler \<lparr>decode_ok = True, impl_status = OtherStatus ''INTERNAL_ERROR'', encode_ok = True\<rparr>
     (handler_program False True ''EchoRequest'' ''EchoResponseMalloc'')
     = ([Decoded, Invoked], Some (OtherStatus ''INTERNAL_ERROR'')) \<and>
   Released Response \<notin> set (fst (run_handler
     \<lparr>decode_ok = True, impl_status = OtherStatus ''INTERNAL_ERROR'', encode_ok = True\<rparr>
     (handler_program False True ''EchoRequest'' ''EchoResponseMalloc'')))"
  by (simp add: run_handler_decode_failure run_handler_impl_failure)

text \<open>
  Claim C2, amended: for every method of every service the emitted handler is the text
  of \<open>handler_program\<close>, and every run of it follows the order decode, invoke, encode,
  release: on decode failure it returns the decode error without invoking the
  implementation and without a release; when the implementation signals non-success it
  releases the request, if the request is pointer-bearing, and returns that status; on
  encode failure it releases the request and the response, each if pointer-bearing, and
  returns the encode error; on encode success it releases the same and returns success.
  So a pointer-bearing request is released on every exit after a successful decode,
  and a pointer-bearing response on every exit after the encode attempt.
\<close>

theorem server_handler_sequence:
  "server_handler_lines package messages_with_pointers service mth =
     render_handler (svc_name service)
       \<lparr>req_type_name = get_nanopb_type_name package (last (split_sep CHR ''.'' (mth_input_type mth))),
        res_type_name = get_nanopb_type_name package (last (split_sep CHR ''.'' (mth_output_type mth))),
        impl_method_name = mth_name mth\<rparr>
       (handler_program
          (last (split_sep CHR ''.'' (mth_input_type mth)) \<in> messages_with_pointers)
          (last (split_sep CHR ''.'' (mth_output_type mth)) \<in> messages_with_pointers)
          (last (split_sep CHR ''.'' (mth_input_type mth)))
          (last (split_sep CHR ''.'' (mth_output_type mth)))) \<and>
   (\<not> decode_ok out \<longrightarrow>
      run_handler out (handler_program rq rs a b) = ([Decoded], Some DECODE_ERROR)) \<and>
   (decode_ok out \<and> impl_status out \<noteq> OK \<longrightarrow>
      run_handler out (handler_program rq rs a b)
        = ([Decoded, Invoked] @ (if rq then [Released Request] else []),
           Some (impl_status out))) \<and>
   (decode_ok out \<and> impl_status out = OK \<and> \<not> encode_ok out \<longrightarrow>
      run_handler out (handler_program rq rs a b)
        = ([Decoded, Invoked, Encoded]
             @ (if rq then [Released Request] else []) @ (if rs then [Released Response] else []),
           Some ENCODE_ERROR)) \<and>
   (decode_ok out \<and> impl_status out = OK \<and> encode_ok out \<longrightarrow>
      run_handler out (handler_program rq rs a b)
        = ([Decoded, Invoked, Encoded]
             @ (if rq then [Released Request] else []) @ (if rs then [Released Response] else []),
           Some OK)) \<and>
   (decode_ok out \<and> rq \<longrightarrow>
      Released Request \<in> set (fst (run_handler out (handler_program rq rs a b)))) \<and>
   (decode_ok out \<and> impl_status out = OK \<and> rs \<longrightarrow>
      Released Response \<in> set (fst (run_handler out (handler_program rq rs a b))))"
proof -
  have released_response: "decode_ok out \<and> impl_status out = OK \<and> rs \<longrightarrow>
      Released Response \<in> set (fst (run_handler out (handler_program rq rs a b)))"
    by (cases "encode_ok out") (simp_all add: run_handler_encode_failure run_handler_success)
  have released: "decode_ok out \<and> rq \<longrightarrow>
      Released Request \<in> set (fst (run_handler out (handler_program rq rs a b)))"
  proof (intro impI)
    assume h: "decode_ok out \<and> rq"
    show "Released Request \<in> set (fst (run_handler out (handler_program rq rs a b)))"
    proof (cases "impl_status out = OK")
      case False
      with h show ?thesis by (simp add: run_handler_impl_failure)
    next
      case True
      with h show ?thesis
        by (cases "encode_ok out") (simp_all add: run_handler_encode_failure run_handler_success)
    qed
  qed
  show ?thesis
    using server_handler_lines_program [of package messages_with_pointers service mth]
      run_handler_decode_failure [of out rq rs a b]
      run_handler_impl_failure [of out rq rs a b]
      run_handler_encode_failure [of out rq rs a b]
      run_handler_success [of out rq rs a b]
      released released_response
    by blast
qed

theorem server_handler_sequence_witness:
  "run_handler \<lparr>decode_ok = False, impl_status = OK, encode_ok = True\<rparr>
     (handler_program True False ''EchoRequestMalloc'' ''Empty'')
     = ([Decoded], Some DECODE_ERROR) \<and>
   run_handler \<lparr>decode_ok = True, impl_status = OtherStatus ''INTERNAL_ERROR'', encode_ok = True\<rparr>
     (handler_program True False ''EchoRequestMalloc'' ''Empty'')
     = ([Decoded, Invoked, Released Request], Some (OtherStatus ''INTERNAL_ERROR'')) \<and>
   run_handler \<lparr>decode_ok = True, impl_status = OK, encode_ok = False\<rparr>
     (handler_program True True ''EchoRequestMalloc'' ''EchoResponseMalloc'')
     = ([Decoded, Invoked, Encoded, Released Request, Released Response], Some ENCODE_ERROR) \<and>
   run_handler \<lparr>decode_ok = True, impl_status = OK, encode_ok = True\<rparr>
     (handler_program False True ''EchoRequest'' ''EchoResponseMalloc'')
     = ([Decoded, Invoked, Encoded, Released Response], Some OK)"
  using
    server_handler_sequence [where out = "\<lparr>decode_ok = False, impl_status = OK, encode_ok = True\<rparr>"
      and rq = True and rs = False and a = "''EchoRequestMalloc''" and b = "''Empty''"]
    server_handler_sequence [where out =
      "\<lparr>decode_ok = True, impl_status = OtherStatus ''INTERNAL_ERROR'', encode_ok = True\<rparr>"
      and rq = True and rs = False and a = "''EchoRequestMalloc''" and b = "''Empty''"]
    server_handler_sequence [where out = "\<lparr>decode_ok = True, impl_status = OK, encode_ok = False\<rparr>"
      and rq = True and rs = True and a = "''EchoRequestMalloc''" and b = "''EchoResponseMalloc''"]
    server_handler_sequence [where out = "\<lparr>decode_ok = True, impl_status = OK, encode_ok = True\<rparr>"
      and rq = False and rs = True and a = "''EchoRequest''" and b = "''EchoResponseMalloc''"]
  by simp


end
